theory Spec2Isabelle
  imports Main
begin

section \<open>JavaScript values\<close>

text \<open>
  The hook \<open>useRealtimeSession\<close> handles data typed \<open>any\<close>: the parsed tool-call
  arguments and the card objects returned by the remote card service. They are modelled
  as JSON values extended with \<open>undefined\<close>. An object is the list of its own
  properties, keys unique. Numbers are the integers (card identifiers, ease values).
\<close>

datatype jsval =
    Undefined
  | JNull
  | JBool bool
  | JNum int
  | JStr string
  | JArr "jsval list"
  | JObj "(string \<times> jsval) list"

text \<open>Exceptions: a property read on \<open>null\<close>/\<open>undefined\<close>, a failed
  \<open>JSON.parse\<close>, and \<open>new Error(msg)\<close> (also what the remote service raises).\<close>

datatype js_error = TypeError | SyntaxError | Error string

text \<open>Truthiness, as tested by \<open>if (v)\<close>, \<open>v ? a : b\<close> and \<open>v || w\<close>.\<close>

fun truthy :: "jsval \<Rightarrow> bool" where
  "truthy Undefined = False"
| "truthy JNull = False"
| "truthy (JBool b) = b"
| "truthy (JNum n) = (n \<noteq> 0)"
| "truthy (JStr s) = (s \<noteq> [])"
| "truthy (JArr xs) = True"
| "truthy (JObj kvs) = True"

text \<open>\<open>v.k\<close>, for the property names the hook reads (\<open>fields\<close>, \<open>Front\<close>,
  \<open>Back\<close>, \<open>value\<close>, \<open>cardId\<close>, \<open>user_response_quality\<close>,
  \<open>feedback_text\<close>): raises on \<open>null\<close> and \<open>undefined\<close>; a missing property,
  or such a property of a primitive or an array, reads \<open>undefined\<close>.\<close>

fun js_get :: "jsval \<Rightarrow> string \<Rightarrow> js_error + jsval" where
  "js_get Undefined k = Inl TypeError"
| "js_get JNull k = Inl TypeError"
| "js_get (JObj kvs) k = Inr (case map_of kvs k of None \<Rightarrow> Undefined | Some v \<Rightarrow> v)"
| "js_get v k = Inr Undefined"

text \<open>\<open>v?.k\<close>: optional chaining never raises.\<close>

fun js_opt_get :: "jsval \<Rightarrow> string \<Rightarrow> jsval" where
  "js_opt_get (JObj kvs) k = (case map_of kvs k of None \<Rightarrow> Undefined | Some v \<Rightarrow> v)"
| "js_opt_get v k = Undefined"

text \<open>\<open>v || w\<close>.\<close>

definition js_or :: "jsval \<Rightarrow> jsval \<Rightarrow> jsval" where
  "js_or v w = (if truthy v then v else w)"

text \<open>
  Whether turning a value into text raises, as a template literal \<open>`${v}`\<close> does
  (ECMAScript \<open>ToString\<close>). A primitive has a text. An object is asked for its
  \<open>toString\<close>, then its \<open>valueOf\<close>: an object made by \<open>JSON.parse\<close> inherits both,
  and the inherited \<open>toString\<close> answers; but when the object has an own property named
  \<open>toString\<close>, that property is not callable (no JSON value is), the inherited
  \<open>valueOf\<close> returns the object itself, and the conversion raises a \<open>TypeError\<close>.
  An array joins the texts of its elements (\<open>null\<close> and \<open>undefined\<close> give the empty
  text), so it raises when one of them does.
\<close>

fun ToString_raises :: "jsval \<Rightarrow> bool" where
  "ToString_raises (JObj kvs) = (''toString'' \<in> fst ` set kvs)"
| "ToString_raises (JArr xs) = (\<exists>x \<in> set xs. ToString_raises x)"
| "ToString_raises v = False"

text \<open>Truthiness of a \<open>string | null | undefined\<close>: the empty string is falsy.\<close>

fun truthy_str :: "string option \<Rightarrow> bool" where
  "truthy_str None = False"
| "truthy_str (Some d) = (d \<noteq> [])"

section \<open>The mock card source (AnkiService, mock\_deck)\<close>

record Card =
  card_id :: string
  card_front :: string
  card_back :: string
  status :: string

definition MOCK_DECK :: "Card list" where
  "MOCK_DECK =
    [\<lparr>card_id = ''c1'', card_front = ''Amazon Detective'',
      card_back = ''Amazon Detective simplifies the process of analyzing, investigating, and identifying the root cause of potential security issues or suspicious activities. It automatically collects log data from your AWS resources and uses machine learning, statistical analysis, and graph theory to generate visualizations that help you conduct faster and more efficient security investigations.'',
      status = ''new''\<rparr>,
     \<lparr>card_id = ''c2'', card_front = ''AWS Fargate'',
      card_back = ''AWS Fargate is a serverless compute engine for containers that works with both Amazon Elastic Container Service (ECS) and Amazon Elastic Kubernetes Service (EKS). Fargate removes the need to provision and manage servers, lets you specify and pay for resources per application, and improves security through application isolation by design.'',
      status = ''new''\<rparr>,
     \<lparr>card_id = ''c3'', card_front = ''DynamoDB Consistency Models'',
      card_back = ''DynamoDB supports two consistency models: Eventually Consistent and Strongly Consistent. Eventually Consistent reads are the default and maximize your read throughput, but might not reflect the results of a recently completed write. Strongly Consistent reads return a result that reflects all writes that received a successful response prior to the read.'',
      status = ''new''\<rparr>]"

record AnkiService =
  deck :: "Card list"
  currentIndex :: nat

definition newAnkiService :: AnkiService where
  "newAnkiService = \<lparr>deck = MOCK_DECK, currentIndex = 0\<rparr>"

definition startSession :: "AnkiService \<Rightarrow> AnkiService" where
  "startSession a = a\<lparr>currentIndex := 0\<rparr>"

text \<open>\<open>getNextCard\<close>: the card (or \<open>null\<close>) and the service after the call; the
  progress text is dropped, its only caller reads \<open>card\<close>.\<close>

definition getNextCard :: "AnkiService \<Rightarrow> Card option \<times> AnkiService" where
  "getNextCard a =
     (if currentIndex a \<ge> length (deck a) then (None, a)
      else (Some (deck a ! currentIndex a), a\<lparr>currentIndex := currentIndex a + 1\<rparr>))"

text \<open>\<open>getDeckStats().name\<close>, the only field a caller reads.\<close>

definition getDeckStats_name :: "AnkiService \<Rightarrow> string" where
  "getDeckStats_name a = ''AWS Security''"

section \<open>Transport messages, events, trace lines\<close>

text \<open>The outbound texts are long templates; they are kept as terms that hold the
  values interpolated into them.\<close>

datatype greeting =
    RealGreeting bool string nat
  | MockGreeting string

datatype instructions =
    SayHello
  | RealInstructions greeting
  | MockInstructions

datatype content =
    RealInitial jsval jsval
  | StartDemo

datatype transport_msg =
    SessionUpdate instructions
  | SessionUpdateTools instructions
  | ItemMessage content
  | FunctionCallOutput string jsval
  | ResponseCreate

text \<open>\<open>FunctionCallOutput call_id out\<close> is the \<open>conversation.item.create\<close> message
  of type \<open>function_call_output\<close>; \<open>out\<close> is the object handed to \<open>JSON.stringify\<close>.\<close>

record item =
  item_type :: string
  call_id :: string
  name :: string

text \<open>Inbound transport events, by \<open>event.type\<close>. The fields the transport fills
  in itself (transcripts, call identifiers, tool names) are strings. The arguments of
  \<open>response.function_call_arguments.done\<close>, which the remote agent writes, are given
  by what \<open>JSON.parse\<close> makes of them: the parsed value, or the exception it raises.\<close>

datatype event =
    AudioTranscriptDone string
  | InputTranscriptionCompleted string
  | AudioDelta
  | AudioTranscriptDelta
  | OutputItemAdded "item option"
  | FunctionCallArgumentsDone string "js_error + jsval"
  | OtherEvent string

datatype debug_msg =
    StartingConnection
  | RequestingMicrophone
  | MicrophoneGranted
  | ConnectingSession
  | SessionConnected
  | ErrorMsg js_error
  | MicrophoneStopped
  | Disconnected
  | AutoConnecting
  | AutoConnectFailed
  | StartStudyCalled "string option"
  | NoDeckName
  | ErrorInitReal js_error
  | StartingStudy greeting
  | AI string
  | User string
  | ToolQueued string
  | ToolExecuting "string option"
  | Evaluation jsval jsval
  | ToolResult bool
  | ToolError js_error

section \<open>The remote card service and the platform\<close>

text \<open>Requests made to the remote card service (AnkiConnectService), in order.\<close>

datatype anki_request =
    FindDueCards string
  | CardsInfo "int list"
  | AnswerCard jsval int

text \<open>How \<open>session.disconnect?.()\<close> behaves: the method may be absent.\<close>

datatype teardown = NoMethod | Returns | Throws js_error

record session =
  teardown :: teardown

text \<open>What the outside world answers during one operation of the hook: the remote
  card service, the microphone, the transport handshake, the clock.\<close>

record env =
  apiKey :: "string option"
  getUserMedia :: "js_error + nat list"
  newSession :: session
  sessionConnect :: "js_error + unit"
  findDueCards :: "string \<Rightarrow> js_error + int list"
  cardsInfo :: "int list \<Rightarrow> js_error + jsval list"
  answerCard :: "jsval \<Rightarrow> int \<Rightarrow> js_error + bool"
  hours :: nat

section \<open>The state of the hook\<close>

text \<open>
  The React state and the refs of \<open>useRealtimeSession\<close>. A media stream is the list
  of its tracks; \<open>stopped\<close> lists the tracks on which \<open>stop()\<close> was called,
  \<open>sent\<close> the messages given to \<open>transport.sendEvent\<close>, \<open>requests\<close> the requests
  made to the remote card service. Each operation of the hook runs to its end before the
  next one starts: an \<open>await\<close> is the call of a function of the environment, not a
  point where another operation comes in.
\<close>

record state =
  isConnected :: bool
  isConnecting :: bool
  error :: "string option"
  debugInfo :: "debug_msg list"
  evaluation :: jsval
  isStudyMode :: bool
  currentCard :: jsval
  sessionRef :: "session option"
  toolCallNames :: "string \<Rightarrow> string option"
  mockServiceRef :: AnkiService
  activeDeckNameRef :: "string option"
  realQueueRef :: "int list"
  currentCardRef :: jsval
  streamRef :: "nat list option"
  stopped :: "nat list"
  sent :: "transport_msg list"
  requests :: "anki_request list"

definition initial :: state where
  "initial = \<lparr>isConnected = False, isConnecting = False, error = None, debugInfo = [],
     evaluation = JNull, isStudyMode = False, currentCard = JNull, sessionRef = None,
     toolCallNames = Map.empty, mockServiceRef = newAnkiService, activeDeckNameRef = None,
     realQueueRef = [], currentCardRef = JNull, streamRef = None, stopped = [], sent = [],
     requests = []\<rparr>"

definition appendDebug :: "debug_msg \<Rightarrow> state \<Rightarrow> state" where
  "appendDebug msg s = s\<lparr>debugInfo := debugInfo s @ [msg]\<rparr>"

definition sendEvent :: "transport_msg \<Rightarrow> state \<Rightarrow> state" where
  "sendEvent m s = s\<lparr>sent := sent s @ [m]\<rparr>"

definition message :: "js_error \<Rightarrow> string" where
  "message e = (case e of Error m \<Rightarrow> m | TypeError \<Rightarrow> ''TypeError'' | SyntaxError \<Rightarrow> ''SyntaxError'')"

section \<open>connect and disconnect\<close>

text \<open>The body of the \<open>try\<close> of \<open>connect\<close>: the exception raised, if any, and the
  state reached.\<close>

definition connect_try :: "env \<Rightarrow> bool \<Rightarrow> state \<Rightarrow> (js_error + unit) \<times> state" where
  "connect_try env skipGreeting s0 =
     (let s1 = appendDebug StartingConnection (s0\<lparr>isConnecting := True, error := None\<rparr>) in
      if \<not> truthy_str (apiKey env) then (Inl (Error ''VITE_OPENAI_API_KEY not found''), s1)
      else
        let s2 = appendDebug RequestingMicrophone (appendDebug RequestingMicrophone s1) in
        case getUserMedia env of
          Inl e \<Rightarrow> (Inl e, s2)
        | Inr stream \<Rightarrow>
            let s3 = appendDebug MicrophoneGranted (s2\<lparr>streamRef := Some stream\<rparr>);
                s4 = appendDebug ConnectingSession (s3\<lparr>sessionRef := Some (newSession env)\<rparr>)
            in case sessionConnect env of
                 Inl e \<Rightarrow> (Inl e, s4)
               | Inr u \<Rightarrow>
                   let s5 = (appendDebug SessionConnected s4)\<lparr>isConnected := True\<rparr>;
                       s6 = (if \<not> skipGreeting
                             then sendEvent ResponseCreate (sendEvent (SessionUpdate SayHello) s5)
                             else s5)
                   in (Inr (), s6))"

definition connect :: "env \<Rightarrow> bool \<Rightarrow> state \<Rightarrow> bool \<times> state" where
  "connect env skipGreeting s0 =
     (case connect_try env skipGreeting s0 of
        (Inr u, s) \<Rightarrow> (True, s\<lparr>isConnecting := False\<rparr>)
      | (Inl e, s) \<Rightarrow>
          (False, (appendDebug (ErrorMsg e) (s\<lparr>error := Some (message e)\<rparr>))
                    \<lparr>isConnected := False, isConnecting := False\<rparr>))"

text \<open>\<open>disconnect\<close>: the teardown call sits in a \<open>try\<close> whose \<open>catch\<close> only
  warns on the console, so no exception leaves the function.\<close>

definition disconnect :: "state \<Rightarrow> state" where
  "disconnect s0 =
     (let s1 = (case sessionRef s0 of
                  None \<Rightarrow> s0
                | Some sess \<Rightarrow>
                    (case teardown sess of
                       Throws e \<Rightarrow> s0\<lparr>sessionRef := None\<rparr>
                     | Returns \<Rightarrow> s0\<lparr>sessionRef := None\<rparr>
                     | NoMethod \<Rightarrow> s0\<lparr>sessionRef := None\<rparr>));
          s2 = (case streamRef s1 of
                  None \<Rightarrow> s1
                | Some tracks \<Rightarrow>
                    appendDebug MicrophoneStopped
                      (s1\<lparr>stopped := stopped s1 @ tracks, streamRef := None\<rparr>))
      in appendDebug Disconnected
           (s2\<lparr>isConnected := False, isStudyMode := False, activeDeckNameRef := None,
               currentCard := JNull\<rparr>))"

section \<open>Fetching and answering cards\<close>

text \<open>The shim that gives a mock card the shape of a remote one.\<close>

definition shimmed :: "Card \<Rightarrow> jsval" where
  "shimmed crd =
     JObj [(''cardId'', JStr (card_id crd)),
           (''fields'', JObj [(''Front'', JObj [(''value'', JStr (card_front crd))]),
                              (''Back'', JObj [(''value'', JStr (card_back crd))])])]"

text \<open>\<open>fetchNextCardInternal\<close>: the card returned (\<open>JNull\<close> for \<open>null\<close>) or the
  exception of the remote lookup, and the state reached.\<close>

definition fetchNextCardInternal :: "env \<Rightarrow> state \<Rightarrow> (js_error + jsval) \<times> state" where
  "fetchNextCardInternal env s =
     (if truthy_str (activeDeckNameRef s) then
        (case realQueueRef s of
           [] \<Rightarrow> (Inr JNull, s)
         | nextId # rest \<Rightarrow>
             let s1 = s\<lparr>requests := requests s @ [CardsInfo [nextId]]\<rparr> in
             (case cardsInfo env [nextId] of
                Inl e \<Rightarrow> (Inl e, s1)
              | Inr info \<Rightarrow>
                  (case info of
                     crd # others \<Rightarrow>
                       (Inr crd, s1\<lparr>realQueueRef := rest, currentCardRef := crd,
                                     currentCard := crd\<rparr>)
                   | [] \<Rightarrow> (Inr JNull, s1))))
      else
        (case getNextCard (mockServiceRef s) of
           (Some crd, a) \<Rightarrow>
             (Inr (shimmed crd),
              s\<lparr>mockServiceRef := a, currentCardRef := shimmed crd,
                currentCard := shimmed crd\<rparr>)
         | (None, a) \<Rightarrow> (Inr JNull, s\<lparr>mockServiceRef := a\<rparr>)))"

text \<open>The ease submitted for a verdict: \<open>verdict === 'correct' ? 3 : 1\<close>.\<close>

definition ease :: "jsval \<Rightarrow> int" where
  "ease verdict = (if verdict = JStr ''correct'' then 3 else 1)"

text \<open>\<open>answerCardInternal\<close>. Both branches start with a console line that renders
  its values as text (\<open>`Answering Real Card ${cardId}: ${verdict}`\<close>,
  \<open>`Mock Answer: ${verdict}`\<close>), which may raise before any request is made.\<close>

definition answerCardInternal :: "env \<Rightarrow> jsval \<Rightarrow> state \<Rightarrow> (js_error + unit) \<times> state" where
  "answerCardInternal env verdict s =
     (if truthy_str (activeDeckNameRef s) \<and> truthy (currentCardRef s) then
        (case js_get (currentCardRef s) ''cardId'' of
           Inl e \<Rightarrow> (Inl e, s)
         | Inr cardId \<Rightarrow>
             if ToString_raises cardId \<or> ToString_raises verdict then (Inl TypeError, s)
             else
               let s1 = s\<lparr>requests := requests s @ [AnswerCard cardId (ease verdict)]\<rparr> in
               (case answerCard env cardId (ease verdict) of
                  Inl e \<Rightarrow> (Inl e, s1)
                | Inr ok \<Rightarrow> (Inr (), s1)))
      else if ToString_raises verdict then (Inl TypeError, s)
      else (Inr (), s))"

section \<open>The tool call\<close>

definition END_OF_SESSION :: jsval where
  "END_OF_SESSION = JObj [(''front'', JStr ''END OF SESSION''), (''back'', JStr ''END OF SESSION'')]"

text \<open>\<open>card.fields.X.value\<close>, which raises when \<open>fields\<close> or \<open>X\<close> is missing.\<close>

definition field_value :: "jsval \<Rightarrow> string \<Rightarrow> js_error + jsval" where
  "field_value crd x =
     (case js_get crd ''fields'' of
        Inl e \<Rightarrow> Inl e
      | Inr fs \<Rightarrow>
          (case js_get fs x of
             Inl e \<Rightarrow> Inl e
           | Inr f \<Rightarrow> js_get f ''value''))"

text \<open>\<open>card ? { front: card.fields.Front.value, back: card.fields.Back.value } : other\<close>.\<close>

definition card_content :: "jsval \<Rightarrow> jsval \<Rightarrow> js_error + jsval" where
  "card_content crd other =
     (if truthy crd then
        (case field_value crd ''Front'' of
           Inl e \<Rightarrow> Inl e
         | Inr f \<Rightarrow>
             (case field_value crd ''Back'' of
                Inl e \<Rightarrow> Inl e
              | Inr b \<Rightarrow> Inr (JObj [(''front'', f), (''back'', b)])))
      else Inr other)"

text \<open>\<open>currentCardRef.current?.fields?.Back?.value || null\<close>; the chain of
  optional reads is the back-text of the card (\<open>undefined\<close> where there is none).\<close>

definition back_text :: "jsval \<Rightarrow> jsval" where
  "back_text crd = js_opt_get (js_opt_get (js_opt_get crd ''fields'') ''Back'') ''value''"

definition answeredCardBack :: "jsval \<Rightarrow> jsval" where
  "answeredCardBack crd = js_or (back_text crd) JNull"

definition tool_output :: "jsval \<Rightarrow> jsval \<Rightarrow> jsval" where
  "tool_output answered nextCardOutput =
     JObj [(''status'', JStr ''success''),
           (''answered_card_back'', answered),
           (''next_card'', nextCardOutput)]"

text \<open>The body of the \<open>try\<close> that services \<open>evaluate_and_move_next\<close>. The trace
  line \<open>`[Evaluation] ${verdict} - ${feedback}`\<close> renders both values as text before
  the verdict is displayed and the card graded, and raises when one of them cannot be.\<close>

definition evaluate_and_move_next ::
  "env \<Rightarrow> string \<Rightarrow> js_error + jsval \<Rightarrow> state \<Rightarrow> (js_error + unit) \<times> state" where
  "evaluate_and_move_next env cid argsStr s0 =
     (case argsStr of
        Inl e \<Rightarrow> (Inl e, s0)
      | Inr args \<Rightarrow>
          (case js_get args ''user_response_quality'' of
             Inl e \<Rightarrow> (Inl e, s0)
           | Inr verdict \<Rightarrow>
               (case js_get args ''feedback_text'' of
                  Inl e \<Rightarrow> (Inl e, s0)
                | Inr feedback \<Rightarrow>
                    if ToString_raises verdict \<or> ToString_raises feedback then (Inl TypeError, s0)
                    else
                    let s1 = (appendDebug (Evaluation verdict feedback) s0)\<lparr>evaluation := verdict\<rparr>;
                        answered = answeredCardBack (currentCardRef s1)
                    in (case answerCardInternal env verdict s1 of
                          (Inl e, s2) \<Rightarrow> (Inl e, s2)
                        | (Inr u, s2) \<Rightarrow>
                            (case fetchNextCardInternal env s2 of
                               (Inl e, s3) \<Rightarrow> (Inl e, s3)
                             | (Inr nextCard, s3) \<Rightarrow>
                                 (case card_content nextCard END_OF_SESSION of
                                    Inl e \<Rightarrow> (Inl e, s3)
                                  | Inr nextCardOutput \<Rightarrow>
                                      (Inr (),
                                       sendEvent ResponseCreate
                                         (sendEvent
                                            (FunctionCallOutput cid
                                               (tool_output answered nextCardOutput))
                                            (appendDebug (ToolResult (truthy nextCard)) s3)))))))))"

definition handleTransportEvent :: "env \<Rightarrow> event \<Rightarrow> state \<Rightarrow> state" where
  "handleTransportEvent env ev s0 =
     (case sessionRef s0 of
        None \<Rightarrow> s0
      | Some session \<Rightarrow>
          (case ev of
             AudioTranscriptDone t \<Rightarrow> appendDebug (AI t) s0
           | InputTranscriptionCompleted t \<Rightarrow> appendDebug (User t) s0
           | AudioDelta \<Rightarrow> s0
           | AudioTranscriptDelta \<Rightarrow> s0
           | OutputItemAdded it \<Rightarrow>
               (case it of
                  None \<Rightarrow> s0
                | Some i \<Rightarrow>
                    if item_type i = ''function_call''
                    then appendDebug (ToolQueued (name i))
                           (s0\<lparr>toolCallNames := (toolCallNames s0)(call_id i \<mapsto> name i)\<rparr>)
                    else s0)
           | FunctionCallArgumentsDone cid argsStr \<Rightarrow>
               let s1 = appendDebug (ToolExecuting (toolCallNames s0 cid)) s0 in
               if toolCallNames s0 cid = Some ''evaluate_and_move_next'' then
                 (case evaluate_and_move_next env cid argsStr s1 of
                    (Inr u, s2) \<Rightarrow> s2
                  | (Inl e, s2) \<Rightarrow> appendDebug (ToolError e) s2)
               else s1
           | OtherEvent t \<Rightarrow> s0))"

section \<open>startStudySession\<close>

definition greeting_real :: "env \<Rightarrow> string \<Rightarrow> nat \<Rightarrow> greeting" where
  "greeting_real env d n = RealGreeting (hours env < 12) d n"

text \<open>The \<open>try\<close> of the remote branch: the greeting, the instructions and the
  initial content, or the exception, and the state reached. The initial content renders
  the front and the back of the first card as text.\<close>

definition init_real :: "env \<Rightarrow> string \<Rightarrow> state \<Rightarrow> (js_error + greeting \<times> instructions \<times> content) \<times> state" where
  "init_real env currentDeck s0 =
     (let s1 = s0\<lparr>requests := requests s0 @ [FindDueCards currentDeck]\<rparr> in
      case findDueCards env currentDeck of
        Inl e \<Rightarrow> (Inl e, s1)
      | Inr dueCards \<Rightarrow>
          (case fetchNextCardInternal env (s1\<lparr>realQueueRef := dueCards\<rparr>) of
             (Inl e, s2) \<Rightarrow> (Inl e, s2)
           | (Inr actualFirstCard, s2) \<Rightarrow>
               (case card_content actualFirstCard JNull of
                  Inl e \<Rightarrow> (Inl e, s2)
                | Inr actualFirstContent \<Rightarrow>
                    let f = js_or (js_opt_get actualFirstContent ''front'') (JStr ''None'');
                        b = js_or (js_opt_get actualFirstContent ''back'') (JStr ''None'')
                    in if ToString_raises f \<or> ToString_raises b then (Inl TypeError, s2)
                       else
                         (Inr (greeting_real env currentDeck (length dueCards),
                               RealInstructions (greeting_real env currentDeck (length dueCards)),
                               RealInitial f b),
                          s2))))"

text \<open>The mock branch: the session of the mock service restarts.\<close>

definition init_mock :: "state \<Rightarrow> (js_error + greeting \<times> instructions \<times> content) \<times> state" where
  "init_mock s0 =
     (let s1 = s0\<lparr>mockServiceRef := startSession (mockServiceRef s0)\<rparr>
      in (Inr (MockGreeting (getDeckStats_name (mockServiceRef s1)), MockInstructions, StartDemo),
          s1))"

text \<open>\<open>if (currentDeck) ... else ...\<close> on \<open>activeDeckNameRef.current\<close>.\<close>

definition init_session :: "env \<Rightarrow> state \<Rightarrow> (js_error + greeting \<times> instructions \<times> content) \<times> state" where
  "init_session env s =
     (case activeDeckNameRef s of
        None \<Rightarrow> init_mock s
      | Some currentDeck \<Rightarrow>
          if currentDeck \<noteq> [] then init_real env currentDeck s else init_mock s)"

text \<open>\<open>startStudySession\<close>: the state reached, and the exception that left the
  function, if any (the first fetch and the read of its fields are outside any
  \<open>try\<close>).\<close>

definition startStudySession :: "env \<Rightarrow> string option \<Rightarrow> state \<Rightarrow> (js_error + unit) \<times> state" where
  "startStudySession env deckName s0 =
     (case (if sessionRef s0 = None
            then connect env True (appendDebug AutoConnecting s0)
            else (True, s0)) of
        (False, s1) \<Rightarrow> (Inr (), appendDebug AutoConnectFailed s1)
      | (True, s1) \<Rightarrow>
          let s2 = (appendDebug (StartStudyCalled deckName) s1)\<lparr>isStudyMode := True\<rparr>;
              s3 = (if truthy_str deckName then s2\<lparr>activeDeckNameRef := deckName\<rparr>
                    else if \<not> truthy_str (activeDeckNameRef s2) then appendDebug NoDeckName s2
                    else s2);
              s4 = s3\<lparr>currentCardRef := JNull, currentCard := JNull\<rparr>
          in (case fetchNextCardInternal env s4 of
                (Inl e, s5) \<Rightarrow> (Inl e, s5)
              | (Inr firstCard, s5) \<Rightarrow>
                  (case card_content firstCard JNull of
                     Inl e \<Rightarrow> (Inl e, s5)
                   | Inr firstCardContent \<Rightarrow>
                       (case init_session env s5 of
                          (Inl e, s6) \<Rightarrow> (Inr (), appendDebug (ErrorInitReal e) s6)
                        | (Inr (greeting, instrs, initialContent), s6) \<Rightarrow>
                            (Inr (),
                             sendEvent ResponseCreate
                               (sendEvent (ItemMessage initialContent)
                                  (sendEvent (SessionUpdateTools instrs)
                                     (appendDebug (StartingStudy greeting) s6))))))))"

section \<open>The verdict badge and its timer\<close>

text \<open>
  The hook keeps the displayed verdict in the React state \<open>evaluation\<close> and clears it
  with an effect that depends on \<open>[evaluation]\<close>: when the value is truthy the effect
  starts a timeout of 3000 ms whose callback is \<open>setEvaluation(null)\<close>, and returns a
  cleanup that clears that timeout. Time is a clock in milliseconds; the badge is the
  value displayed and the deadline of the pending timeout, if there is one. The rules of
  React the effect relies on are written out: a set of a value identical to the one held
  (\<open>Object.is\<close>) renders nothing and runs no effect; any other set renders, and the
  effect runs on the new value after the cleanup of its previous run.
\<close>

record badge =
  shown :: jsval
  timer :: "nat option"

definition initial_badge :: badge where
  "initial_badge = \<lparr>shown = JNull, timer = None\<rparr>"

text \<open>\<open>Object.is\<close> between the value held and a value that comes from a new
  \<open>JSON.parse\<close> or is \<open>null\<close>: an object or array newly parsed is never the one
  held.\<close>

fun is_primitive :: "jsval \<Rightarrow> bool" where
  "is_primitive (JArr xs) = False"
| "is_primitive (JObj kvs) = False"
| "is_primitive v = True"

definition same_value :: "jsval \<Rightarrow> jsval \<Rightarrow> bool" where
  "same_value held v = (held = v \<and> is_primitive v)"

text \<open>A run of the effect at time \<open>now\<close>: the cleanup of the previous run has cleared
  its timeout; a truthy value starts a new one.\<close>

definition run_effect :: "nat \<Rightarrow> badge \<Rightarrow> badge" where
  "run_effect now b =
     (if truthy (shown b) then b\<lparr>timer := Some (now + 3000)\<rparr> else b\<lparr>timer := None\<rparr>)"

definition setEvaluation :: "nat \<Rightarrow> jsval \<Rightarrow> badge \<Rightarrow> badge" where
  "setEvaluation now v b =
     (if same_value (shown b) v then b else run_effect now (b\<lparr>shown := v\<rparr>))"

text \<open>The clock reaches \<open>now\<close>: a timeout that is due has fired at its deadline, and
  its callback has set the value to \<open>null\<close>.\<close>

definition elapse :: "nat \<Rightarrow> badge \<Rightarrow> badge" where
  "elapse now b =
     (case timer b of
        None \<Rightarrow> b
      | Some due \<Rightarrow>
          if due \<le> now then setEvaluation due JNull (b\<lparr>timer := None\<rparr>) else b)"

text \<open>A series of verdicts, each set at its time, in the order of the times.\<close>

fun play :: "(nat \<times> jsval) list \<Rightarrow> badge \<Rightarrow> badge" where
  "play [] b = b"
| "play ((t, v) # sets) b = play sets (setEvaluation t v (elapse t b))"

section \<open>Notions used in the statements\<close>

text \<open>A tool call is serviced when the handler answers it: the handling of the event
  sends the \<open>function_call_output\<close> for the call, followed by the response trigger,
  and nothing else.\<close>

definition serviced :: "env \<Rightarrow> event \<Rightarrow> state \<Rightarrow> string \<Rightarrow> jsval \<Rightarrow> bool" where
  "serviced env ev s cid out =
     (sent (handleTransportEvent env ev s) = sent s @ [FunctionCallOutput cid out, ResponseCreate])"

text \<open>No card is left: the due queue is empty (remote mode), or the mock deck has been
  walked through (mock mode).\<close>

definition exhausted :: "state \<Rightarrow> bool" where
  "exhausted s =
     (if truthy_str (activeDeckNameRef s) then realQueueRef s = []
      else currentIndex (mockServiceRef s) \<ge> length (deck (mockServiceRef s)))"

text \<open>The identifier of a card, \<open>card?.cardId\<close>.\<close>

definition card_ident :: "jsval \<Rightarrow> jsval" where
  "card_ident crd = js_opt_get crd ''cardId''"

text \<open>The due queue holds no identifier twice, and not the current card's.\<close>

definition queue_inv :: "state \<Rightarrow> bool" where
  "queue_inv s =
     (distinct (realQueueRef s) \<and> card_ident (currentCardRef s) \<notin> set (map JNum (realQueueRef s)))"

text \<open>A remote service that answers a lookup of one identifier with the card that
  carries it, and one that lists no due card twice.\<close>

definition id_faithful :: "env \<Rightarrow> bool" where
  "id_faithful env = (\<forall>i c cs. cardsInfo env [i] = Inr (c # cs) \<longrightarrow> card_ident c = JNum i)"

definition due_distinct :: "env \<Rightarrow> bool" where
  "due_distinct env = (\<forall>d ids. findDueCards env d = Inr ids \<longrightarrow> distinct ids)"

text \<open>Events are handled one at a time, in arrival order; each finds the world as it
  answers at that moment.\<close>

definition run :: "(env \<times> event) list \<Rightarrow> state \<Rightarrow> state" where
  "run steps s = foldl (\<lambda>t (env, ev). handleTransportEvent env ev t) s steps"

text \<open>Events that do not complete a tool call.\<close>

fun completes_call :: "event \<Rightarrow> bool" where
  "completes_call (FunctionCallArgumentsDone c a) = True"
| "completes_call ev = False"

text \<open>The state without its trace: the verdict badge and the debug transcript blanked.\<close>

definition untraced :: "state \<Rightarrow> state" where
  "untraced s = s\<lparr>evaluation := JNull, debugInfo := []\<rparr>"

section \<open>Concrete sessions\<close>

text \<open>A card as the remote service returns it, a remote service over a list of cards
  (a lookup omits the identifiers it does not know), and the session reached from the
  initial state by \<open>connect\<close>, \<open>startStudySession("Spanish")\<close> and the announcement
  of a tool call.\<close>

definition remote_card :: "int \<Rightarrow> string \<Rightarrow> string \<Rightarrow> jsval" where
  "remote_card i f b =
     JObj [(''cardId'', JNum i),
           (''fields'', JObj [(''Front'', JObj [(''value'', JStr f), (''order'', JNum 0)]),
                              (''Back'', JObj [(''value'', JStr b), (''order'', JNum 1)])])]"

definition remote_env :: "jsval list \<Rightarrow> int list \<Rightarrow> teardown \<Rightarrow> env" where
  "remote_env cards due td =
     \<lparr>apiKey = Some ''sk-test'', getUserMedia = Inr [0], newSession = \<lparr>teardown = td\<rparr>,
      sessionConnect = Inr (),
      findDueCards = (\<lambda>d. Inr due),
      cardsInfo = (\<lambda>ids. Inr (filter (\<lambda>c. card_ident c \<in> set (map JNum ids)) cards)),
      answerCard = (\<lambda>c e. Inr True),
      hours = 9\<rparr>"

definition announce :: "string \<Rightarrow> event" where
  "announce cid =
     OutputItemAdded (Some \<lparr>item_type = ''function_call'', call_id = cid,
                            name = ''evaluate_and_move_next''\<rparr>)"

definition tool_call :: "string \<Rightarrow> jsval \<Rightarrow> event" where
  "tool_call cid q =
     FunctionCallArgumentsDone cid
       (Inr (JObj [(''user_response_quality'', q), (''feedback_text'', JStr ''ok'')]))"

definition studying :: "env \<Rightarrow> string \<Rightarrow> state" where
  "studying env cid =
     handleTransportEvent env (announce cid)
       (snd (startStudySession env (Some ''Spanish'') (snd (connect env False initial))))"

definition two_cards_env :: env where
  "two_cards_env =
     remote_env [remote_card 1 ''Hola'' ''Hello'', remote_card 2 ''Adios'' ''Goodbye''] [1, 2] Returns"

definition empty_back_env :: env where
  "empty_back_env =
     remote_env [remote_card 1 ''Hola'' [], remote_card 2 ''Adios'' ''Goodbye''] [1, 2] Returns"

definition one_card_env :: env where
  "one_card_env = remote_env [remote_card 1 ''Hola'' ''Hello''] [1] Returns"

definition no_due_env :: env where
  "no_due_env = remote_env [] [] Returns"

definition missing_card_env :: env where
  "missing_card_env = remote_env [remote_card 1 ''Hola'' ''Hello''] [7, 8] Returns"

definition failing_teardown_env :: env where
  "failing_teardown_env =
     remote_env [remote_card 1 ''Hola'' ''Hello''] [1] (Throws (Error ''teardown failed''))"

text \<open>A first connection attempt whose handshake fails after the microphone was
  granted, a second attempt that succeeds with a new stream, and the state after both.\<close>

definition failed_handshake_env :: env where
  "failed_handshake_env = two_cards_env\<lparr>sessionConnect := Inl (Error ''handshake failed'')\<rparr>"

definition second_stream_env :: env where
  "second_stream_env = two_cards_env\<lparr>getUserMedia := Inr [1]\<rparr>"

definition reconnected :: state where
  "reconnected =
     snd (connect second_stream_env False (snd (connect failed_handshake_env False initial)))"

text \<open>A deck whose first due card is known to the service and whose second is not.\<close>

definition held_card_env :: env where
  "held_card_env = remote_env [remote_card 1 ''Hola'' ''Hello''] [1, 7, 8] Returns"

section \<open>Frame lemmas\<close>

lemma appendDebug_simps [simp]:
  "sent (appendDebug m s) = sent s"
  "requests (appendDebug m s) = requests s"
  "realQueueRef (appendDebug m s) = realQueueRef s"
  "currentCardRef (appendDebug m s) = currentCardRef s"
  "currentCard (appendDebug m s) = currentCard s"
  "activeDeckNameRef (appendDebug m s) = activeDeckNameRef s"
  "mockServiceRef (appendDebug m s) = mockServiceRef s"
  "sessionRef (appendDebug m s) = sessionRef s"
  "toolCallNames (appendDebug m s) = toolCallNames s"
  "evaluation (appendDebug m s) = evaluation s"
  "streamRef (appendDebug m s) = streamRef s"
  "stopped (appendDebug m s) = stopped s"
  "debugInfo (appendDebug m s) = debugInfo s @ [m]"
  by (simp_all add: appendDebug_def)

lemma sendEvent_simps [simp]:
  "sent (sendEvent m s) = sent s @ [m]"
  "requests (sendEvent m s) = requests s"
  "realQueueRef (sendEvent m s) = realQueueRef s"
  "currentCardRef (sendEvent m s) = currentCardRef s"
  "currentCard (sendEvent m s) = currentCard s"
  "activeDeckNameRef (sendEvent m s) = activeDeckNameRef s"
  "mockServiceRef (sendEvent m s) = mockServiceRef s"
  "sessionRef (sendEvent m s) = sessionRef s"
  "toolCallNames (sendEvent m s) = toolCallNames s"
  "evaluation (sendEvent m s) = evaluation s"
  "streamRef (sendEvent m s) = streamRef s"
  "stopped (sendEvent m s) = stopped s"
  "debugInfo (sendEvent m s) = debugInfo s"
  by (simp_all add: sendEvent_def)

text \<open>Submitting an answer only adds a request; fetching a card never sends anything,
  never rebinds the deck and leaves the trace alone.\<close>

lemma answerCardInternal_frame:
  assumes "answerCardInternal env v s = (r, s')"
  shows "sent s' = sent s \<and> realQueueRef s' = realQueueRef s \<and> currentCardRef s' = currentCardRef s
    \<and> currentCard s' = currentCard s \<and> activeDeckNameRef s' = activeDeckNameRef s
    \<and> mockServiceRef s' = mockServiceRef s \<and> debugInfo s' = debugInfo s
    \<and> evaluation s' = evaluation s"
  using assms by (auto simp: answerCardInternal_def Let_def split: if_splits sum.splits)

lemma fetchNextCardInternal_frame:
  assumes "fetchNextCardInternal env s = (r, s')"
  shows "sent s' = sent s \<and> activeDeckNameRef s' = activeDeckNameRef s
    \<and> debugInfo s' = debugInfo s \<and> evaluation s' = evaluation s"
  using assms
  by (auto simp: fetchNextCardInternal_def getNextCard_def Let_def
      split: if_splits sum.splits list.splits prod.splits option.splits)

lemma fetch_remote_empty:
  "truthy_str (activeDeckNameRef s) \<Longrightarrow> realQueueRef s = [] \<Longrightarrow>
   fetchNextCardInternal env s = (Inr JNull, s)"
  by (simp add: fetchNextCardInternal_def)

lemma fetch_remote_miss:
  "truthy_str (activeDeckNameRef s) \<Longrightarrow> realQueueRef s = i # q \<Longrightarrow> cardsInfo env [i] = Inr [] \<Longrightarrow>
   fetchNextCardInternal env s = (Inr JNull, s\<lparr>requests := requests s @ [CardsInfo [i]]\<rparr>)"
  by (simp add: fetchNextCardInternal_def)

lemma fetch_remote_hit:
  "truthy_str (activeDeckNameRef s) \<Longrightarrow> realQueueRef s = i # q \<Longrightarrow> cardsInfo env [i] = Inr (c # cs) \<Longrightarrow>
   fetchNextCardInternal env s =
     (Inr c, s\<lparr>requests := requests s @ [CardsInfo [i]], realQueueRef := q,
               currentCardRef := c, currentCard := c\<rparr>)"
  by (simp add: fetchNextCardInternal_def)

lemma fetch_exhausted:
  "exhausted s \<Longrightarrow> fetchNextCardInternal env s = (Inr JNull, s)"
  by (simp add: exhausted_def fetchNextCardInternal_def getNextCard_def split: if_splits)

lemma tool_output_fields [simp]:
  "js_opt_get (tool_output a n) ''answered_card_back'' = a"
  "js_opt_get (tool_output a n) ''next_card'' = n"
  "js_opt_get (tool_output a n) ''status'' = JStr ''success''"
  by (simp_all add: tool_output_def)

section \<open>The anatomy of a serviced call\<close>

lemma evaluate_and_move_next_Inl:
  assumes "evaluate_and_move_next env cid a s0 = (Inl e, s')"
  shows "sent s' = sent s0"
  using assms
  by (auto simp: evaluate_and_move_next_def Let_def
      split: sum.splits prod.splits if_splits
      dest!: answerCardInternal_frame fetchNextCardInternal_frame)

lemma evaluate_and_move_next_Inr:
  assumes "evaluate_and_move_next env cid a s0 = (Inr u, s')"
  obtains args verdict feedback s2 s3 nextCard nco where
    "a = Inr args" "js_get args ''user_response_quality'' = Inr verdict"
    "js_get args ''feedback_text'' = Inr feedback"
    "\<not> ToString_raises verdict" "\<not> ToString_raises feedback"
    "answerCardInternal env verdict ((appendDebug (Evaluation verdict feedback) s0)\<lparr>evaluation := verdict\<rparr>) = (Inr (), s2)"
    "fetchNextCardInternal env s2 = (Inr nextCard, s3)"
    "card_content nextCard END_OF_SESSION = Inr nco"
    "s' = sendEvent ResponseCreate
            (sendEvent (FunctionCallOutput cid (tool_output (answeredCardBack (currentCardRef s0)) nco))
               (appendDebug (ToolResult (truthy nextCard)) s3))"
  using assms
  by (auto simp: evaluate_and_move_next_def Let_def split: sum.splits prod.splits if_splits)

text \<open>A serviced call is a \<open>function_call_arguments.done\<close> event for an announced
  \<open>evaluate_and_move_next\<close> call in a live session, whose arguments parsed, whose
  answer was submitted, whose next card was fetched and read without an exception.\<close>

lemma serviced_elim:
  assumes "serviced env ev s cid out"
  obtains sess args verdict feedback s2 s3 nextCard nco where
    "sessionRef s = Some sess"
    "ev = FunctionCallArgumentsDone cid (Inr args)"
    "toolCallNames s cid = Some ''evaluate_and_move_next''"
    "js_get args ''user_response_quality'' = Inr verdict"
    "js_get args ''feedback_text'' = Inr feedback"
    "\<not> ToString_raises verdict" "\<not> ToString_raises feedback"
    "answerCardInternal env verdict
       ((appendDebug (Evaluation verdict feedback) (appendDebug (ToolExecuting (toolCallNames s cid)) s))
          \<lparr>evaluation := verdict\<rparr>) = (Inr (), s2)"
    "fetchNextCardInternal env s2 = (Inr nextCard, s3)"
    "card_content nextCard END_OF_SESSION = Inr nco"
    "out = tool_output (answeredCardBack (currentCardRef s)) nco"
    "handleTransportEvent env ev s =
       sendEvent ResponseCreate
         (sendEvent (FunctionCallOutput cid out) (appendDebug (ToolResult (truthy nextCard)) s3))"
proof -
  let ?s' = "handleTransportEvent env ev s"
  from assms have snt: "sent ?s' = sent s @ [FunctionCallOutput cid out, ResponseCreate]"
    by (simp add: serviced_def)
  then obtain sess where sess: "sessionRef s = Some sess"
    by (cases "sessionRef s") (auto simp: handleTransportEvent_def)
  from snt sess obtain cid' a where ev: "ev = FunctionCallArgumentsDone cid' a"
    by (cases ev) (auto simp: handleTransportEvent_def split: option.splits if_splits)
  let ?s1 = "appendDebug (ToolExecuting (toolCallNames s cid')) s"
  from snt sess ev have nm: "toolCallNames s cid' = Some ''evaluate_and_move_next''"
    by (auto simp: handleTransportEvent_def Let_def split: if_splits)
  obtain r t where rt: "evaluate_and_move_next env cid' a ?s1 = (r, t)"
    by (cases "evaluate_and_move_next env cid' a ?s1") auto
  have "\<exists>u. r = Inr u"
  proof (cases r)
    case (Inl e)
    with rt have "sent t = sent ?s1" by (auto dest: evaluate_and_move_next_Inl)
    with snt sess ev nm rt Inl show ?thesis
      by (simp add: handleTransportEvent_def Let_def)
  qed simp
  then have r: "r = Inr ()" by auto
  from sess ev nm rt r have s': "?s' = t"
    by (simp add: handleTransportEvent_def Let_def)
  from rt r obtain args verdict feedback s2 s3 nextCard nco where
    parts: "a = Inr args" "js_get args ''user_response_quality'' = Inr verdict"
    "js_get args ''feedback_text'' = Inr feedback"
    "answerCardInternal env verdict ((appendDebug (Evaluation verdict feedback) ?s1)\<lparr>evaluation := verdict\<rparr>) = (Inr (), s2)"
    "fetchNextCardInternal env s2 = (Inr nextCard, s3)"
    "card_content nextCard END_OF_SESSION = Inr nco"
    and rend: "\<not> ToString_raises verdict" "\<not> ToString_raises feedback"
    and t: "t = sendEvent ResponseCreate
            (sendEvent (FunctionCallOutput cid' (tool_output (answeredCardBack (currentCardRef ?s1)) nco))
               (appendDebug (ToolResult (truthy nextCard)) s3))"
    by (auto elim: evaluate_and_move_next_Inr)
  from parts(4,5) have "sent s3 = sent s"
    by (auto dest!: answerCardInternal_frame fetchNextCardInternal_frame)
  with snt s' t have "cid' = cid" "out = tool_output (answeredCardBack (currentCardRef s)) nco"
    by auto
  with sess ev nm parts rend s' t show ?thesis
    by (intro that[of sess args verdict feedback s2 nextCard s3 nco]) auto
qed

text \<open>With no card left, an announced call whose arguments are an object with values
  that have a text is serviced as soon as the remote service accepts the answer (it is
  asked only in remote mode with a current card).\<close>

lemma truthy_js_get: "truthy c \<Longrightarrow> js_get c k = Inr (js_opt_get c k)"
  by (cases c) auto

lemma exhausted_call_is_serviced:
  assumes "sessionRef s = Some sess" and "toolCallNames s cid = Some ''evaluate_and_move_next''"
    and "js_get args ''user_response_quality'' = Inr v" and "\<not> ToString_raises v"
    and "js_get args ''feedback_text'' = Inr fb" and "\<not> ToString_raises fb"
    and "exhausted s" and "\<not> ToString_raises (js_opt_get (currentCardRef s) ''cardId'')"
    and "\<And>i. \<exists>ok. answerCard env i (ease v) = Inr ok"
  shows "\<exists>out. serviced env (FunctionCallArgumentsDone cid (Inr args)) s cid out"
proof -
  let ?s1 = "(appendDebug (Evaluation v fb)
               (appendDebug (ToolExecuting (Some ''evaluate_and_move_next'')) s))\<lparr>evaluation := v\<rparr>"
  have "\<exists>s2. answerCardInternal env v ?s1 = (Inr (), s2)"
  proof (cases "truthy_str (activeDeckNameRef s) \<and> truthy (currentCardRef s)")
    case True
    then have x: "js_get (currentCardRef s) ''cardId'' = Inr (js_opt_get (currentCardRef s) ''cardId'')"
      using truthy_js_get by blast
    from assms(9)[of "js_opt_get (currentCardRef s) ''cardId''"]
    obtain ok where "answerCard env (js_opt_get (currentCardRef s) ''cardId'') (ease v) = Inr ok"
      by blast
    with True x assms(4,8) show ?thesis by (simp add: answerCardInternal_def)
  next
    case False
    with assms(4) show ?thesis by (auto simp: answerCardInternal_def)
  qed
  then obtain s2 where a: "answerCardInternal env v ?s1 = (Inr (), s2)" by blast
  then have "exhausted s2" and snt: "sent s2 = sent s"
    using assms(7) by (auto simp: exhausted_def dest!: answerCardInternal_frame)
  then have f: "fetchNextCardInternal env s2 = (Inr JNull, s2)"
    by (simp add: fetch_exhausted)
  show ?thesis
    using assms(1-6) a f snt
    by (simp add: serviced_def handleTransportEvent_def evaluate_and_move_next_def Let_def
        card_content_def)
qed

section \<open>The trace does not steer the tool call\<close>

lemma untraced_eqD:
  assumes "untraced s = untraced t"
  shows "requests s = requests t" "activeDeckNameRef s = activeDeckNameRef t"
    "currentCardRef s = currentCardRef t" "currentCard s = currentCard t"
    "realQueueRef s = realQueueRef t" "mockServiceRef s = mockServiceRef t" "sent s = sent t"
    "sessionRef s = sessionRef t" "toolCallNames s = toolCallNames t"
  using assms by (cases s, cases t, simp add: untraced_def)+

lemma untraced_upd [simp]:
  "untraced (s\<lparr>requests := r\<rparr>) = (untraced s)\<lparr>requests := r\<rparr>"
  "untraced (s\<lparr>realQueueRef := q\<rparr>) = (untraced s)\<lparr>realQueueRef := q\<rparr>"
  "untraced (s\<lparr>currentCardRef := c\<rparr>) = (untraced s)\<lparr>currentCardRef := c\<rparr>"
  "untraced (s\<lparr>currentCard := c\<rparr>) = (untraced s)\<lparr>currentCard := c\<rparr>"
  "untraced (s\<lparr>mockServiceRef := a\<rparr>) = (untraced s)\<lparr>mockServiceRef := a\<rparr>"
  "untraced (s\<lparr>evaluation := v\<rparr>) = untraced s"
  "untraced (s\<lparr>debugInfo := d\<rparr>) = untraced s"
  "untraced (appendDebug m s) = untraced s"
  "untraced (sendEvent x s) = (untraced s)\<lparr>sent := sent s @ [x]\<rparr>"
  by (simp_all add: untraced_def appendDebug_def sendEvent_def)







section \<open>Deck binding and card source across connect and startStudySession\<close>

lemma connect_frame:
  "activeDeckNameRef (snd (connect env g s)) = activeDeckNameRef s
   \<and> mockServiceRef (snd (connect env g s)) = mockServiceRef s
   \<and> realQueueRef (snd (connect env g s)) = realQueueRef s
   \<and> currentCardRef (snd (connect env g s)) = currentCardRef s"
  by (auto simp: connect_def connect_try_def Let_def split: sum.splits prod.splits)

text \<open>A successful \<open>connect\<close> holds the stream the microphone gave.\<close>

lemma connect_acquires:
  assumes "connect env g s = (True, s')"
  shows "\<exists>tracks. getUserMedia env = Inr tracks \<and> streamRef s' = Some tracks
     \<and> sessionRef s' = Some (newSession env)"
  using assms
  by (auto simp: connect_def connect_try_def Let_def split: sum.splits prod.splits if_splits)

text \<open>\<open>disconnect\<close> stops the tracks of the stream it finds, with or without a
  session, whatever the teardown of the session does.\<close>

lemma disconnect_stops_stream:
  assumes "streamRef s = Some tracks"
  shows "stopped (disconnect s) = stopped s @ tracks \<and> streamRef (disconnect s) = None
     \<and> sessionRef (disconnect s) = None"
  using assms by (auto simp: disconnect_def Let_def split: option.splits teardown.splits)

text \<open>So the tracks a successful \<open>connect\<close> acquired are stopped by the
  \<open>disconnect\<close> that follows it.\<close>

lemma connect_then_disconnect:
  assumes "connect env g s = (True, s')" and "getUserMedia env = Inr tracks"
  shows "set tracks \<subseteq> set (stopped (disconnect s'))"
  using connect_acquires [OF assms(1)] assms(2) disconnect_stops_stream [of s' tracks] by auto

lemma fetch_source_frame:
  "fetchNextCardInternal env s = (r, s') \<Longrightarrow>
   activeDeckNameRef s' = activeDeckNameRef s
   \<and> (truthy_str (activeDeckNameRef s) \<longrightarrow> mockServiceRef s' = mockServiceRef s)"
  by (auto simp: fetchNextCardInternal_def getNextCard_def Let_def
      split: if_splits sum.splits list.splits prod.splits option.splits)

lemma init_real_frame:
  "truthy_str (activeDeckNameRef s) \<Longrightarrow>
   activeDeckNameRef (snd (init_real env d s)) = activeDeckNameRef s
   \<and> mockServiceRef (snd (init_real env d s)) = mockServiceRef s"
  by (auto simp: init_real_def Let_def split: sum.splits prod.splits dest!: fetch_source_frame)

lemma init_session_frame:
  "activeDeckNameRef (snd (init_session env s)) = activeDeckNameRef s
   \<and> (truthy_str (activeDeckNameRef s) \<longrightarrow> mockServiceRef (snd (init_session env s)) = mockServiceRef s)"
  using init_real_frame[of s env]
  by (auto simp: init_session_def init_mock_def Let_def split: option.splits)

section \<open>The due queue along a session\<close>

lemma id_faithfulD:
  "id_faithful env \<Longrightarrow> cardsInfo env [i] = Inr (c # cs) \<Longrightarrow> js_opt_get c ''cardId'' = JNum i"
  by (auto simp: id_faithful_def card_ident_def)

lemma queue_inv_fetch:
  assumes "queue_inv s" and "id_faithful env" and "fetchNextCardInternal env s = (r, s')"
  shows "queue_inv s'"
  using assms(1,3)
  by (auto simp: queue_inv_def fetchNextCardInternal_def getNextCard_def Let_def
      shimmed_def card_ident_def
      split: if_splits sum.splits list.splits prod.splits dest!: id_faithfulD[OF assms(2)])

lemma queue_inv_answer:
  assumes "queue_inv s" and "answerCardInternal env v s = (r, s')"
  shows "queue_inv s'"
  using assms by (auto simp: queue_inv_def dest!: answerCardInternal_frame)

lemma queue_inv_trace [simp]:
  "queue_inv (appendDebug m s) = queue_inv s"
  "queue_inv (sendEvent x s) = queue_inv s"
  "queue_inv (s\<lparr>evaluation := v\<rparr>) = queue_inv s"
  "queue_inv (s\<lparr>toolCallNames := n\<rparr>) = queue_inv s"
  "queue_inv (s\<lparr>isStudyMode := b\<rparr>) = queue_inv s"
  "queue_inv (s\<lparr>activeDeckNameRef := d\<rparr>) = queue_inv s"
  "queue_inv (s\<lparr>requests := rq\<rparr>) = queue_inv s"
  "queue_inv (s\<lparr>mockServiceRef := a\<rparr>) = queue_inv s"
  by (simp_all add: queue_inv_def)

lemma queue_inv_evaluate_and_move_next:
  assumes "queue_inv s" and "id_faithful env"
  shows "queue_inv (snd (evaluate_and_move_next env cid a s))"
  using assms
  by (auto simp: evaluate_and_move_next_def Let_def split: sum.splits prod.splits
      dest!: queue_inv_answer[rotated] queue_inv_fetch[rotated 2])

text \<open>Every event keeps the invariant, whether its call is serviced or fails.\<close>

lemma queue_inv_handle:
  assumes "queue_inv s" and "id_faithful env"
  shows "queue_inv (handleTransportEvent env ev s)"
proof (cases ev)
  case (FunctionCallArgumentsDone cid a)
  with assms
    queue_inv_evaluate_and_move_next[OF _ assms(2),
      of "appendDebug (ToolExecuting (toolCallNames s cid)) s" cid a]
  show ?thesis
    by (auto simp: handleTransportEvent_def Let_def split: option.splits sum.splits prod.splits)
qed (use assms in \<open>auto simp: handleTransportEvent_def split: option.splits\<close>)

lemma queue_inv_run:
  assumes "queue_inv s" and "\<forall>(env, ev) \<in> set steps. id_faithful env"
  shows "queue_inv (run steps s)"
  using assms unfolding run_def
  by (induction steps arbitrary: s) (auto simp: queue_inv_handle)

text \<open>An event removes at most one identifier from the due queue, and adds none.\<close>

lemma queue_length_fetch:
  assumes "fetchNextCardInternal env s = (r, s')"
  shows "length (realQueueRef s') \<le> length (realQueueRef s)
     \<and> length (realQueueRef s) \<le> length (realQueueRef s') + 1"
  using assms
  by (auto simp: fetchNextCardInternal_def getNextCard_def Let_def
      split: if_splits sum.splits list.splits prod.splits)

lemma queue_length_handle:
  "length (realQueueRef (handleTransportEvent env ev s)) \<le> length (realQueueRef s)
   \<and> length (realQueueRef s) \<le> length (realQueueRef (handleTransportEvent env ev s)) + 1"
proof (cases ev)
  case (FunctionCallArgumentsDone cid a)
  have "length (realQueueRef (snd (evaluate_and_move_next env cid a t))) \<le> length (realQueueRef t)
   \<and> length (realQueueRef t) \<le> length (realQueueRef (snd (evaluate_and_move_next env cid a t))) + 1" for t
    by (auto simp: evaluate_and_move_next_def Let_def split: sum.splits prod.splits
      dest!: answerCardInternal_frame queue_length_fetch)
  from this[of "appendDebug (ToolExecuting (toolCallNames s cid)) s"] FunctionCallArgumentsDone
  show ?thesis
    by (auto simp: handleTransportEvent_def Let_def split: option.splits sum.splits prod.splits)
qed (auto simp: handleTransportEvent_def split: option.splits)

lemma queue_inv_empty: "realQueueRef s = [] \<Longrightarrow> queue_inv s"
  by (simp add: queue_inv_def)

lemma queue_inv_init_real:
  assumes "queue_inv s" and "id_faithful env" and "due_distinct env" and "currentCardRef s = JNull"
  shows "queue_inv (snd (init_real env d s))"
proof (cases "findDueCards env d")
  case (Inl e)
  with assms(1) show ?thesis by (simp add: init_real_def)
next
  case (Inr dueCards)
  let ?s1 = "s\<lparr>requests := requests s @ [FindDueCards d], realQueueRef := dueCards\<rparr>"
  from Inr assms(3) have "distinct dueCards" by (auto simp: due_distinct_def)
  with assms(4) have inv: "queue_inv ?s1" by (auto simp: queue_inv_def card_ident_def)
  obtain r t where f: "fetchNextCardInternal env ?s1 = (r, t)"
    by (cases "fetchNextCardInternal env ?s1") auto
  from queue_inv_fetch[OF inv assms(2) f] Inr f show ?thesis
    by (auto simp: init_real_def Let_def split: sum.splits if_splits)
qed

lemma fetch_queue_empty:
  assumes "realQueueRef s = []" and "fetchNextCardInternal env s = (r, s')"
  shows "realQueueRef s' = [] \<and> activeDeckNameRef s' = activeDeckNameRef s
     \<and> (truthy_str (activeDeckNameRef s) \<longrightarrow> currentCardRef s' = currentCardRef s)"
  using assms
  by (auto simp: fetchNextCardInternal_def getNextCard_def split: if_splits prod.splits option.splits)

lemma queue_inv_init_session:
  assumes "realQueueRef s = []" and "id_faithful env" and "due_distinct env"
    and "truthy_str (activeDeckNameRef s) \<longrightarrow> currentCardRef s = JNull"
  shows "queue_inv (snd (init_session env s))"
  using assms queue_inv_init_real[OF queue_inv_empty[OF assms(1)] assms(2,3), of _]
  by (auto simp: init_session_def init_mock_def queue_inv_empty split: option.splits)

text \<open>Starting a study session on an empty due queue (a fresh connection, or a
  finished deck) establishes the invariant.\<close>

lemma queue_inv_start:
  assumes "realQueueRef s = []" and "id_faithful env" and "due_distinct env"
  shows "queue_inv (snd (startStudySession env deckName s))"
proof -
  obtain ok s1 where c: "(if sessionRef s = None then connect env True (appendDebug AutoConnecting s)
            else (True, s)) = (ok, s1)"
    by (cases "(if sessionRef s = None then connect env True (appendDebug AutoConnecting s)
            else (True, s))") auto
  have s1: "realQueueRef s1 = []"
    using c connect_frame[of env True "appendDebug AutoConnecting s"] assms(1)
    by (auto split: if_splits)
  let ?s3 = "(if truthy_str deckName
             then (appendDebug (StartStudyCalled deckName) s1)\<lparr>isStudyMode := True, activeDeckNameRef := deckName\<rparr>
             else if \<not> truthy_str (activeDeckNameRef ((appendDebug (StartStudyCalled deckName) s1)\<lparr>isStudyMode := True\<rparr>))
               then appendDebug NoDeckName ((appendDebug (StartStudyCalled deckName) s1)\<lparr>isStudyMode := True\<rparr>)
               else (appendDebug (StartStudyCalled deckName) s1)\<lparr>isStudyMode := True\<rparr>)"
  let ?s4 = "?s3\<lparr>currentCardRef := JNull, currentCard := JNull\<rparr>"
  have s4: "realQueueRef ?s4 = []" "currentCardRef ?s4 = JNull" using s1 by auto
  obtain r5 s5 where f: "fetchNextCardInternal env ?s4 = (r5, s5)"
    by (cases "fetchNextCardInternal env ?s4") auto
  from fetch_queue_empty[OF s4(1) f] s4(2)
  have s5: "realQueueRef s5 = []" "truthy_str (activeDeckNameRef s5) \<longrightarrow> currentCardRef s5 = JNull"
    by auto
  note fin = queue_inv_init_session[OF s5(1) assms(2,3) s5(2)]
  show ?thesis
    using c s1 f s5 fin
    by (auto simp: startStudySession_def Let_def queue_inv_empty
        split: sum.splits prod.splits bool.splits)
qed

section \<open>The requests of a tool call\<close>

lemma answer_requests:
  assumes "answerCardInternal env v s = (r, s')"
  shows "\<exists>rs. requests s' = requests s @ rs \<and> (rs = [] \<or> (\<exists>c e. rs = [AnswerCard c e]))"
  using assms by (auto simp: answerCardInternal_def Let_def split: if_splits sum.splits)

lemma fetch_remote_requests:
  assumes "truthy_str (activeDeckNameRef s)" and "realQueueRef s = i # q"
    and "fetchNextCardInternal env s = (r, s')"
  shows "requests s' = requests s @ [CardsInfo [i]]"
  using assms by (auto simp: fetchNextCardInternal_def Let_def split: sum.splits list.splits)

text \<open>In remote mode with a queued card, a serviced call has asked the service for the
  head of the queue, after the grading request if it made one.\<close>

lemma serviced_requests:
  assumes "serviced env ev s cid out" and "truthy_str (activeDeckNameRef s)"
    and "realQueueRef s = i # q"
  shows "\<exists>rs. requests (handleTransportEvent env ev s) = requests s @ rs @ [CardsInfo [i]]
           \<and> (rs = [] \<or> (\<exists>c e. rs = [AnswerCard c e]))"
proof -
  from assms(1) obtain verdict feedback s2 s3 nextCard nco where
    ans: "answerCardInternal env verdict
       ((appendDebug (Evaluation verdict feedback) (appendDebug (ToolExecuting (toolCallNames s cid)) s))
          \<lparr>evaluation := verdict\<rparr>) = (Inr (), s2)"
    and fetch: "fetchNextCardInternal env s2 = (Inr nextCard, s3)"
    and s': "handleTransportEvent env ev s =
       sendEvent ResponseCreate
         (sendEvent (FunctionCallOutput cid out) (appendDebug (ToolResult (truthy nextCard)) s3))"
    by (elim serviced_elim)
  from answer_requests[OF ans] obtain rs where
    rs: "requests s2 = requests s @ rs" "rs = [] \<or> (\<exists>c e. rs = [AnswerCard c e])"
    by auto
  from ans assms(2,3) have "truthy_str (activeDeckNameRef s2)" "realQueueRef s2 = i # q"
    by (auto dest!: answerCardInternal_frame)
  from fetch_remote_requests[OF this fetch] rs s'
  have "requests (handleTransportEvent env ev s) = requests s @ rs @ [CardsInfo [i]]" by simp
  with rs(2) show ?thesis by blast
qed

text \<open>Events that do not complete a tool call leave the card source alone.\<close>

lemma other_event_frame:
  assumes "\<not> completes_call ev"
  shows "realQueueRef (handleTransportEvent env ev s) = realQueueRef s
     \<and> activeDeckNameRef (handleTransportEvent env ev s) = activeDeckNameRef s
     \<and> currentCardRef (handleTransportEvent env ev s) = currentCardRef s
     \<and> requests (handleTransportEvent env ev s) = requests s"
  using assms by (cases ev) (auto simp: handleTransportEvent_def split: option.splits)

lemma other_events_frame:
  assumes "\<forall>x \<in> set steps. \<not> completes_call (snd x)"
  shows "realQueueRef (run steps s) = realQueueRef s
     \<and> activeDeckNameRef (run steps s) = activeDeckNameRef s
     \<and> currentCardRef (run steps s) = currentCardRef s
     \<and> requests (run steps s) = requests s"
  using assms unfolding run_def
  by (induction steps arbitrary: s) (auto simp: other_event_frame split: prod.splits)

section \<open>What disconnect stops\<close>

lemma disconnect_stops_held:
  "stopped (disconnect s) = stopped s @ (case streamRef s of None \<Rightarrow> [] | Some tracks \<Rightarrow> tracks)
   \<and> streamRef (disconnect s) = None \<and> sessionRef (disconnect s) = None"
  by (auto simp: disconnect_def Let_def split: option.splits teardown.splits)

section \<open>The badge between two sets\<close>

text \<open>A set leaves the value set on display, which is what the state of the hook
  records as \<open>evaluation\<close>.\<close>

lemma setEvaluation_shown: "shown (setEvaluation now v b) = v"
  by (auto simp: setEvaluation_def same_value_def run_effect_def)

lemma setEvaluation_fresh:
  assumes "truthy v" and "\<not> same_value (shown b) v"
  shows "setEvaluation now v b = b\<lparr>shown := v, timer := Some (now + 3000)\<rparr>"
  using assms by (simp add: setEvaluation_def run_effect_def)

lemma elapse_before:
  "timer b = Some due \<Longrightarrow> t < due \<Longrightarrow> elapse t b = b"
  by (simp add: elapse_def)

lemma elapse_after:
  "timer b = Some due \<Longrightarrow> due \<le> t \<Longrightarrow> shown (elapse t b) = JNull \<and> timer (elapse t b) = None"
  by (auto simp: elapse_def setEvaluation_def same_value_def run_effect_def)

section \<open>Evaluating concrete sessions\<close>

lemmas model_defs =
  serviced_def studying_def announce_def tool_call_def
  remote_env_def remote_card_def card_ident_def
  handleTransportEvent_def evaluate_and_move_next_def answerCardInternal_def
  fetchNextCardInternal_def startStudySession_def init_session_def init_real_def init_mock_def
  connect_def connect_try_def disconnect_def initial_def appendDebug_def sendEvent_def
  card_content_def field_value_def answeredCardBack_def back_text_def js_or_def tool_output_def
  END_OF_SESSION_def ease_def greeting_real_def Let_def

section \<open>The answered card's back-text\<close>

text \<open>
  C1 (as amended). For every serviced \<open>evaluate_and_move_next\<close> call, the
  \<open>answered_card_back\<close> field of the output is computed from the card that was current
  immediately before the call: it is that card's back-text when the text is truthy (a
  non-empty string), and \<open>null\<close> otherwise (no current card, a missing back-text, an
  empty one). Whenever the previous card's back-text is truthy and differs from the
  back-text of the card that is current after the call, \<open>answered_card_back\<close> differs
  from the latter. The value does not depend on what is fetched: in whatever world the
  same call is serviced from the same state, its \<open>answered_card_back\<close> is the same.
\<close>

theorem answered_card_back_of_previous_card:
  assumes "serviced env ev s cid out"
  shows "js_opt_get out ''answered_card_back'' =
           (if truthy (back_text (currentCardRef s)) then back_text (currentCardRef s) else JNull)
     \<and> (truthy (back_text (currentCardRef s))
          \<and> back_text (currentCardRef (handleTransportEvent env ev s)) \<noteq> back_text (currentCardRef s)
        \<longrightarrow> js_opt_get out ''answered_card_back''
              \<noteq> back_text (currentCardRef (handleTransportEvent env ev s)))
     \<and> (\<forall>env' out'. serviced env' ev s cid out' \<longrightarrow>
           js_opt_get out' ''answered_card_back'' = js_opt_get out ''answered_card_back'')"
proof -
  have val: "js_opt_get o' ''answered_card_back'' =
           (if truthy (back_text (currentCardRef s)) then back_text (currentCardRef s) else JNull)"
    if "serviced e' ev s cid o'" for e' o'
    using that by (elim serviced_elim) (simp add: answeredCardBack_def js_or_def)
  from val[OF assms] val show ?thesis by auto
qed

theorem answered_card_back_of_previous_card_witness:
  "serviced two_cards_env (tool_call ''call_1'' (JStr ''correct'')) (studying two_cards_env ''call_1'')
     ''call_1''
     (JObj [(''status'', JStr ''success''), (''answered_card_back'', JStr ''Hello''),
            (''next_card'', JObj [(''front'', JStr ''Adios''), (''back'', JStr ''Goodbye'')])])
   \<and> back_text (currentCardRef (studying two_cards_env ''call_1'')) = JStr ''Hello''
   \<and> back_text (currentCardRef (handleTransportEvent two_cards_env
         (tool_call ''call_1'' (JStr ''correct'')) (studying two_cards_env ''call_1''))) = JStr ''Goodbye''"
proof -
  have h: "serviced two_cards_env (tool_call ''call_1'' (JStr ''correct''))
     (studying two_cards_env ''call_1'') ''call_1''
     (JObj [(''status'', JStr ''success''), (''answered_card_back'', JStr ''Hello''),
            (''next_card'', JObj [(''front'', JStr ''Adios''), (''back'', JStr ''Goodbye'')])])"
    by (simp add: two_cards_env_def model_defs)
  have n: "back_text (currentCardRef (handleTransportEvent two_cards_env
         (tool_call ''call_1'' (JStr ''correct'')) (studying two_cards_env ''call_1''))) = JStr ''Goodbye''"
    by (simp add: two_cards_env_def model_defs)
  from answered_card_back_of_previous_card [OF h]
  have "JStr ''Hello'' =
      (if truthy (back_text (currentCardRef (studying two_cards_env ''call_1'')))
       then back_text (currentCardRef (studying two_cards_env ''call_1'')) else JNull)"
    by simp
  then have "back_text (currentCardRef (studying two_cards_env ''call_1'')) = JStr ''Hello''"
    by (simp split: if_splits)
  with h n show ?thesis by simp
qed

text \<open>The claim as stated fails on a card whose back-text is the empty string: the call is
  serviced, and \<open>answered_card_back\<close> is \<open>null\<close>, not the back-text.\<close>

theorem answered_card_back_counterexample:
  "serviced empty_back_env (tool_call ''call_1'' (JStr ''correct'')) (studying empty_back_env ''call_1'')
     ''call_1''
     (JObj [(''status'', JStr ''success''), (''answered_card_back'', JNull),
            (''next_card'', JObj [(''front'', JStr ''Adios''), (''back'', JStr ''Goodbye'')])])
   \<and> back_text (currentCardRef (studying empty_back_env ''call_1'')) = JStr []
   \<and> js_opt_get
        (JObj [(''status'', JStr ''success''), (''answered_card_back'', JNull),
               (''next_card'', JObj [(''front'', JStr ''Adios''), (''back'', JStr ''Goodbye'')])])
        ''answered_card_back''
       \<noteq> back_text (currentCardRef (studying empty_back_env ''call_1''))"
  by (simp add: empty_back_env_def model_defs)

section \<open>The due queue under a serviced call\<close>

text \<open>
  C2 (as amended). In remote mode, a serviced \<open>evaluate_and_move_next\<close> call that finds
  the due queue non-empty and whose lookup of the head returns a card removes exactly the
  head (the length decreases by exactly one) and makes the returned card current; when
  the queue holds no identifier twice nor the current card's, and the lookup returns the
  card that carries the identifier asked for, the current card's identifier after the
  call differs from the one before, and the queue is again free of repetitions and of
  the current card. A serviced call that finds the queue empty leaves the queue empty
  and the current card as it was; only the \<open>next_card\<close> of its output is the
  end-of-session sentinel.
\<close>

theorem serviced_call_advances_due_queue:
  assumes "serviced env ev s cid out" and "truthy_str (activeDeckNameRef s)"
  shows "(realQueueRef s = [] \<longrightarrow>
            realQueueRef (handleTransportEvent env ev s) = []
          \<and> currentCardRef (handleTransportEvent env ev s) = currentCardRef s
          \<and> js_opt_get out ''next_card'' = END_OF_SESSION)
       \<and> (\<forall>i q c cs. realQueueRef s = i # q \<and> cardsInfo env [i] = Inr (c # cs) \<longrightarrow>
            realQueueRef (handleTransportEvent env ev s) = q
          \<and> length (realQueueRef (handleTransportEvent env ev s)) + 1 = length (realQueueRef s)
          \<and> currentCardRef (handleTransportEvent env ev s) = c
          \<and> (queue_inv s \<and> card_ident c = JNum i \<longrightarrow>
                card_ident (currentCardRef (handleTransportEvent env ev s)) \<noteq> card_ident (currentCardRef s)
              \<and> queue_inv (handleTransportEvent env ev s)))"
proof -
  from assms(1) obtain verdict feedback s2 s3 nextCard nco where
    ans: "answerCardInternal env verdict
       ((appendDebug (Evaluation verdict feedback) (appendDebug (ToolExecuting (toolCallNames s cid)) s))
          \<lparr>evaluation := verdict\<rparr>) = (Inr (), s2)"
    and fetch: "fetchNextCardInternal env s2 = (Inr nextCard, s3)"
    and cc: "card_content nextCard END_OF_SESSION = Inr nco"
    and out: "out = tool_output (answeredCardBack (currentCardRef s)) nco"
    and s': "handleTransportEvent env ev s =
       sendEvent ResponseCreate
         (sendEvent (FunctionCallOutput cid out) (appendDebug (ToolResult (truthy nextCard)) s3))"
    by (elim serviced_elim)
  from ans assms(2) have s2: "truthy_str (activeDeckNameRef s2)" "realQueueRef s2 = realQueueRef s"
    "currentCardRef s2 = currentCardRef s"
    by (auto dest!: answerCardInternal_frame)
  have empty: "realQueueRef (handleTransportEvent env ev s) = []
          \<and> currentCardRef (handleTransportEvent env ev s) = currentCardRef s
          \<and> js_opt_get out ''next_card'' = END_OF_SESSION" if "realQueueRef s = []"
  proof -
    from that s2 fetch have "nextCard = JNull" "s3 = s2" by (simp_all add: fetch_remote_empty)
    with s' s2 that cc out show ?thesis by (simp add: card_content_def)
  qed
  have step: "realQueueRef (handleTransportEvent env ev s) = q
          \<and> length (realQueueRef (handleTransportEvent env ev s)) + 1 = length (realQueueRef s)
          \<and> currentCardRef (handleTransportEvent env ev s) = c
          \<and> (queue_inv s \<and> card_ident c = JNum i \<longrightarrow>
                card_ident (currentCardRef (handleTransportEvent env ev s)) \<noteq> card_ident (currentCardRef s)
              \<and> queue_inv (handleTransportEvent env ev s))"
    if "realQueueRef s = i # q" "cardsInfo env [i] = Inr (c # cs)" for i q c cs
  proof -
    from that s2 fetch have "s3 = s2\<lparr>requests := requests s2 @ [CardsInfo [i]], realQueueRef := q,
               currentCardRef := c, currentCard := c\<rparr>"
      by (auto simp: fetch_remote_hit)
    with s' s2 that have a: "realQueueRef (handleTransportEvent env ev s) = q"
      "currentCardRef (handleTransportEvent env ev s) = c" by simp_all
    with that show ?thesis by (auto simp: queue_inv_def)
  qed
  from empty step show ?thesis by blast
qed

theorem serviced_call_advances_due_queue_witness:
  "serviced two_cards_env (tool_call ''call_1'' (JStr ''correct'')) (studying two_cards_env ''call_1'')
     ''call_1''
     (JObj [(''status'', JStr ''success''), (''answered_card_back'', JStr ''Hello''),
            (''next_card'', JObj [(''front'', JStr ''Adios''), (''back'', JStr ''Goodbye'')])])
   \<and> truthy_str (activeDeckNameRef (studying two_cards_env ''call_1''))
   \<and> queue_inv (studying two_cards_env ''call_1'')
   \<and> realQueueRef (studying two_cards_env ''call_1'') = [2]
   \<and> card_ident (currentCardRef (studying two_cards_env ''call_1'')) = JNum 1
   \<and> realQueueRef (handleTransportEvent two_cards_env (tool_call ''call_1'' (JStr ''correct''))
        (studying two_cards_env ''call_1'')) = []
   \<and> card_ident (currentCardRef (handleTransportEvent two_cards_env (tool_call ''call_1'' (JStr ''correct''))
        (studying two_cards_env ''call_1'')))
       \<noteq> card_ident (currentCardRef (studying two_cards_env ''call_1''))"
proof -
  have h: "serviced two_cards_env (tool_call ''call_1'' (JStr ''correct''))
     (studying two_cards_env ''call_1'') ''call_1''
     (JObj [(''status'', JStr ''success''), (''answered_card_back'', JStr ''Hello''),
            (''next_card'', JObj [(''front'', JStr ''Adios''), (''back'', JStr ''Goodbye'')])])"
    by (simp add: two_cards_env_def model_defs)
  have d: "truthy_str (activeDeckNameRef (studying two_cards_env ''call_1''))"
    by (simp add: two_cards_env_def model_defs)
  have q: "realQueueRef (studying two_cards_env ''call_1'') = [2]
     \<and> cardsInfo two_cards_env [2] = Inr [remote_card 2 ''Adios'' ''Goodbye'']"
    by (simp add: two_cards_env_def model_defs)
  have i: "queue_inv (studying two_cards_env ''call_1'')
     \<and> card_ident (remote_card 2 ''Adios'' ''Goodbye'') = JNum 2
     \<and> card_ident (currentCardRef (studying two_cards_env ''call_1'')) = JNum 1"
    by (simp add: two_cards_env_def queue_inv_def model_defs)
  from serviced_call_advances_due_queue [OF h d]
  have "realQueueRef (studying two_cards_env ''call_1'') = [2]
          \<and> cardsInfo two_cards_env [2] = Inr [remote_card 2 ''Adios'' ''Goodbye''] \<longrightarrow>
        realQueueRef (handleTransportEvent two_cards_env (tool_call ''call_1'' (JStr ''correct''))
            (studying two_cards_env ''call_1'')) = []
        \<and> (queue_inv (studying two_cards_env ''call_1'')
              \<and> card_ident (remote_card 2 ''Adios'' ''Goodbye'') = JNum 2 \<longrightarrow>
            card_ident (currentCardRef (handleTransportEvent two_cards_env
                (tool_call ''call_1'' (JStr ''correct'')) (studying two_cards_env ''call_1'')))
              \<noteq> card_ident (currentCardRef (studying two_cards_env ''call_1'')))"
    by blast
  with h d q i show ?thesis by blast
qed

text \<open>The claim as stated fails once the queue is exhausted: the call is serviced, the
  queue does not get shorter, and the current card keeps its identifier; it does not
  become the end-of-session sentinel.\<close>

theorem exhausted_queue_counterexample:
  "serviced one_card_env (tool_call ''call_1'' (JStr ''correct'')) (studying one_card_env ''call_1'')
     ''call_1''
     (JObj [(''status'', JStr ''success''), (''answered_card_back'', JStr ''Hello''),
            (''next_card'', END_OF_SESSION)])
   \<and> length (realQueueRef (handleTransportEvent one_card_env (tool_call ''call_1'' (JStr ''correct''))
        (studying one_card_env ''call_1''))) = length (realQueueRef (studying one_card_env ''call_1''))
   \<and> card_ident (currentCardRef (handleTransportEvent one_card_env (tool_call ''call_1'' (JStr ''correct''))
        (studying one_card_env ''call_1''))) = card_ident (currentCardRef (studying one_card_env ''call_1''))
   \<and> currentCardRef (handleTransportEvent one_card_env (tool_call ''call_1'' (JStr ''correct''))
        (studying one_card_env ''call_1'')) = remote_card 1 ''Hola'' ''Hello''
   \<and> remote_card 1 ''Hola'' ''Hello'' \<noteq> END_OF_SESSION"
  by (simp add: one_card_env_def model_defs)

section \<open>The end-of-session sentinel\<close>

text \<open>
  C3. For every \<open>evaluate_and_move_next\<close> call serviced when no card is left (the due
  queue is empty in remote mode, the mock deck is walked through in mock mode), the
  \<open>next_card\<close> field of the output is the sentinel object with
  \<open>front = back = "END OF SESSION"\<close>, not \<open>null\<close> and not absent.
\<close>

theorem exhausted_queue_returns_sentinel:
  assumes "serviced env ev s cid out" and "exhausted s"
  shows "js_opt_get out ''next_card'' =
           JObj [(''front'', JStr ''END OF SESSION''), (''back'', JStr ''END OF SESSION'')]"
proof -
  from assms(1) obtain verdict feedback s2 s3 nextCard nco where
    ans: "answerCardInternal env verdict
       ((appendDebug (Evaluation verdict feedback) (appendDebug (ToolExecuting (toolCallNames s cid)) s))
          \<lparr>evaluation := verdict\<rparr>) = (Inr (), s2)"
    and fetch: "fetchNextCardInternal env s2 = (Inr nextCard, s3)"
    and cc: "card_content nextCard END_OF_SESSION = Inr nco"
    and out: "out = tool_output (answeredCardBack (currentCardRef s)) nco"
    by (elim serviced_elim)
  from ans have "exhausted s2 = exhausted s"
    by (auto simp: exhausted_def dest!: answerCardInternal_frame)
  with assms(2) fetch have "nextCard = JNull" by (simp add: fetch_exhausted)
  with cc have "nco = END_OF_SESSION" by (simp add: card_content_def)
  with out show ?thesis by (simp add: END_OF_SESSION_def)
qed

text \<open>The deck "Spanish" with no due card: the session starts with no current card, and
  the first tool call is answered with the sentinel.\<close>

theorem exhausted_queue_returns_sentinel_witness:
  "currentCardRef (studying no_due_env ''call_1'') = JNull
   \<and> exhausted (studying no_due_env ''call_1'')
   \<and> serviced no_due_env (tool_call ''call_1'' (JStr ''correct'')) (studying no_due_env ''call_1'')
       ''call_1''
       (JObj [(''status'', JStr ''success''), (''answered_card_back'', JNull),
              (''next_card'', JObj [(''front'', JStr ''END OF SESSION''),
                                    (''back'', JStr ''END OF SESSION'')])])"
proof -
  have h: "serviced no_due_env (tool_call ''call_1'' (JStr ''correct'')) (studying no_due_env ''call_1'')
       ''call_1''
       (JObj [(''status'', JStr ''success''), (''answered_card_back'', JNull),
              (''next_card'', JObj [(''front'', JStr ''END OF SESSION''),
                                    (''back'', JStr ''END OF SESSION'')])])"
    by (simp add: no_due_env_def model_defs)
  have e: "exhausted (studying no_due_env ''call_1'')"
    by (simp add: no_due_env_def exhausted_def model_defs)
  have c: "currentCardRef (studying no_due_env ''call_1'') = JNull"
    by (simp add: no_due_env_def model_defs)
  show ?thesis
    using h e c exhausted_queue_returns_sentinel [OF h e]
    by simp
qed

section \<open>A verdict outside the enumeration\<close>




section \<open>Arguments that do not parse\<close>

text \<open>
  C5 (as amended). For every argument payload that fails to parse as JSON, and for the
  payload that parses to \<open>null\<close>, the handler raises nothing: it leaves every field of
  the state but the debug transcript as it was (the due queue, the current card, the
  messages sent, the requests made, the displayed verdict), and in a live session with
  the call announced it appends to the transcript the line of the call and the line of
  the error it caught. (A payload whose \<open>user_response_quality\<close> is a string outside
  the enumeration is not among these: it is handled as \<open>'incorrect'\<close>.)
\<close>

theorem unparseable_arguments_leave_state:
  assumes "p = Inl e \<or> (p = Inr JNull \<and> e = TypeError)"
  shows "untraced (handleTransportEvent env (FunctionCallArgumentsDone cid p) s) = untraced s
     \<and> evaluation (handleTransportEvent env (FunctionCallArgumentsDone cid p) s) = evaluation s
     \<and> (sessionRef s \<noteq> None \<and> toolCallNames s cid = Some ''evaluate_and_move_next'' \<longrightarrow>
          debugInfo (handleTransportEvent env (FunctionCallArgumentsDone cid p) s)
            = debugInfo s @ [ToolExecuting (Some ''evaluate_and_move_next''), ToolError e])"
  using assms
  by (auto simp: handleTransportEvent_def evaluate_and_move_next_def Let_def split: option.splits)

theorem unparseable_arguments_leave_state_witness:
  "untraced (handleTransportEvent two_cards_env (FunctionCallArgumentsDone ''call_1'' (Inl SyntaxError))
       (studying two_cards_env ''call_1''))
     = untraced (studying two_cards_env ''call_1'')
   \<and> realQueueRef (handleTransportEvent two_cards_env (FunctionCallArgumentsDone ''call_1'' (Inl SyntaxError))
       (studying two_cards_env ''call_1'')) = [2]
   \<and> debugInfo (handleTransportEvent two_cards_env (FunctionCallArgumentsDone ''call_1'' (Inl SyntaxError))
       (studying two_cards_env ''call_1''))
     = debugInfo (studying two_cards_env ''call_1'')
       @ [ToolExecuting (Some ''evaluate_and_move_next''), ToolError SyntaxError]"
proof -
  have l: "sessionRef (studying two_cards_env ''call_1'') \<noteq> None
     \<and> toolCallNames (studying two_cards_env ''call_1'') ''call_1'' = Some ''evaluate_and_move_next''"
    by (simp add: two_cards_env_def model_defs)
  have q: "realQueueRef (studying two_cards_env ''call_1'') = [2]"
    by (simp add: two_cards_env_def model_defs)
  from unparseable_arguments_leave_state [of "Inl SyntaxError" SyntaxError two_cards_env "''call_1''"
      "studying two_cards_env ''call_1''"]
  have u: "untraced (handleTransportEvent two_cards_env (FunctionCallArgumentsDone ''call_1'' (Inl SyntaxError))
       (studying two_cards_env ''call_1'')) = untraced (studying two_cards_env ''call_1'')
     \<and> debugInfo (handleTransportEvent two_cards_env (FunctionCallArgumentsDone ''call_1'' (Inl SyntaxError))
       (studying two_cards_env ''call_1''))
     = debugInfo (studying two_cards_env ''call_1'')
       @ [ToolExecuting (Some ''evaluate_and_move_next''), ToolError SyntaxError]"
    using l by simp
  have "realQueueRef (handleTransportEvent two_cards_env
       (FunctionCallArgumentsDone ''call_1'' (Inl SyntaxError)) (studying two_cards_env ''call_1''))
     = realQueueRef (studying two_cards_env ''call_1'')"
    by (rule untraced_eqD(5)) (use u in blast)
  with u q show ?thesis by simp
qed

text \<open>The claim as stated fails on a payload with a value outside the enumeration: the
  handler does not raise, but the due queue and the current card are not what they were.\<close>

theorem unlisted_verdict_mutates_counterexample:
  "realQueueRef (studying two_cards_env ''call_1'') = [2]
   \<and> realQueueRef (handleTransportEvent two_cards_env (tool_call ''call_1'' (JStr ''maybe''))
        (studying two_cards_env ''call_1'')) = []
   \<and> currentCardRef (studying two_cards_env ''call_1'') = remote_card 1 ''Hola'' ''Hello''
   \<and> currentCardRef (handleTransportEvent two_cards_env (tool_call ''call_1'' (JStr ''maybe''))
        (studying two_cards_env ''call_1'')) = remote_card 2 ''Adios'' ''Goodbye''
   \<and> remote_card 1 ''Hola'' ''Hello'' \<noteq> remote_card 2 ''Adios'' ''Goodbye''"
  by (simp add: two_cards_env_def model_defs)

section \<open>Restarting the study session without a deck\<close>

text \<open>
  C6. For every invocation of \<open>startStudySession\<close> with no deck name (absent, or the
  empty string, which the code reads alike), the active deck binding after the call is
  the one before it, on every path through the function: a session bound to a remote
  deck stays bound to that deck, and the mock card source is not touched.
\<close>

theorem absent_deck_keeps_binding:
  assumes "\<not> truthy_str deckName"
  shows "activeDeckNameRef (snd (startStudySession env deckName s)) = activeDeckNameRef s
     \<and> (truthy_str (activeDeckNameRef s) \<longrightarrow>
          mockServiceRef (snd (startStudySession env deckName s)) = mockServiceRef s)"
proof -
  obtain ok s1 where c: "(if sessionRef s = None then connect env True (appendDebug AutoConnecting s)
            else (True, s)) = (ok, s1)"
    by (cases "(if sessionRef s = None then connect env True (appendDebug AutoConnecting s)
            else (True, s))") auto
  have s1: "activeDeckNameRef s1 = activeDeckNameRef s" "mockServiceRef s1 = mockServiceRef s"
    using c connect_frame[of env True "appendDebug AutoConnecting s"]
    by (auto split: if_splits)
  let ?s4 = "((appendDebug (StartStudyCalled deckName) s1)\<lparr>isStudyMode := True\<rparr>)
               \<lparr>currentCardRef := JNull, currentCard := JNull\<rparr>"
  let ?s4' = "(appendDebug NoDeckName ((appendDebug (StartStudyCalled deckName) s1)\<lparr>isStudyMode := True\<rparr>))
               \<lparr>currentCardRef := JNull, currentCard := JNull\<rparr>"
  obtain r5 s5 where f: "fetchNextCardInternal env ?s4 = (r5, s5)"
    by (cases "fetchNextCardInternal env ?s4") auto
  obtain r5' s5' where f': "fetchNextCardInternal env ?s4' = (r5', s5')"
    by (cases "fetchNextCardInternal env ?s4'") auto
  have f4: "activeDeckNameRef s5 = activeDeckNameRef s"
    "truthy_str (activeDeckNameRef s) \<longrightarrow> mockServiceRef s5 = mockServiceRef s"
    using fetch_source_frame[OF f] s1 by auto
  have f4': "activeDeckNameRef s5' = activeDeckNameRef s"
    using fetch_source_frame[OF f'] s1 by auto
  show ?thesis
    using assms c s1 f f' f4 f4' init_session_frame[of env s5] init_session_frame[of env s5']
    by (auto simp: startStudySession_def Let_def split: sum.splits prod.splits bool.splits)
qed

theorem absent_deck_keeps_binding_witness:
  "activeDeckNameRef (studying two_cards_env ''call_1'') = Some ''Spanish''
   \<and> activeDeckNameRef (snd (startStudySession two_cards_env None (studying two_cards_env ''call_1'')))
       = Some ''Spanish''
   \<and> mockServiceRef (snd (startStudySession two_cards_env None (studying two_cards_env ''call_1'')))
       = mockServiceRef (studying two_cards_env ''call_1'')"
proof -
  have n: "\<not> truthy_str None" by simp
  have b: "activeDeckNameRef (studying two_cards_env ''call_1'') = Some ''Spanish''"
    by (simp add: two_cards_env_def model_defs)
  from absent_deck_keeps_binding [OF n, of two_cards_env "studying two_cards_env ''call_1''"] b
  show ?thesis by simp
qed

section \<open>disconnect\<close>

text \<open>
  C7 (as amended). For every invocation of \<open>disconnect\<close> while a session exists, every
  track of the stream held in \<open>streamRef\<close> at that moment (the stream of the latest
  acquisition of the microphone) has been stopped when \<open>disconnect\<close> returns, and the
  stream and the session are let go, whatever the teardown of the session does: the
  statement holds for every session, the one whose teardown raises included, so the
  release is on every path through \<open>disconnect\<close>.
\<close>

theorem disconnect_releases_held_stream:
  assumes "sessionRef s = Some sess"
  shows "(\<forall>tracks. streamRef s = Some tracks \<longrightarrow> set tracks \<subseteq> set (stopped (disconnect s)))
     \<and> streamRef (disconnect s) = None \<and> sessionRef (disconnect s) = None"
  using assms disconnect_stops_held [of s] by auto

theorem disconnect_releases_held_stream_witness:
  "sessionRef (studying failing_teardown_env ''call_1'')
     = Some \<lparr>teardown = Throws (Error ''teardown failed'')\<rparr>
   \<and> streamRef (studying failing_teardown_env ''call_1'') = Some [0]
   \<and> stopped (studying failing_teardown_env ''call_1'') = []
   \<and> 0 \<in> set (stopped (disconnect (studying failing_teardown_env ''call_1'')))
   \<and> streamRef (disconnect (studying failing_teardown_env ''call_1'')) = None"
proof -
  have a: "sessionRef (studying failing_teardown_env ''call_1'')
     = Some \<lparr>teardown = Throws (Error ''teardown failed'')\<rparr>"
    by (simp add: failing_teardown_env_def model_defs)
  have b: "streamRef (studying failing_teardown_env ''call_1'') = Some [0]"
    by (simp add: failing_teardown_env_def model_defs)
  have c: "stopped (studying failing_teardown_env ''call_1'') = []"
    by (simp add: failing_teardown_env_def model_defs)
  from disconnect_releases_held_stream [OF a] a b c
  show ?thesis by auto
qed

text \<open>The claim as stated fails after a connection attempt whose handshake failed and a
  second attempt that succeeded: the first attempt acquired track 0 and left its stream
  in \<open>streamRef\<close>, the second put its own stream there, and \<open>disconnect\<close>, called while
  the session exists, stops track 1 only. Track 0 was acquired and is never stopped.\<close>

theorem overwritten_stream_counterexample:
  "getUserMedia failed_handshake_env = Inr [0]
   \<and> fst (connect failed_handshake_env False initial) = False
   \<and> streamRef (snd (connect failed_handshake_env False initial)) = Some [0]
   \<and> stopped (snd (connect failed_handshake_env False initial)) = []
   \<and> sessionRef reconnected = Some \<lparr>teardown = Returns\<rparr>
   \<and> streamRef reconnected = Some [1]
   \<and> stopped (disconnect reconnected) = [1]
   \<and> 0 \<notin> set (stopped (disconnect reconnected))"
  by (simp add: reconnected_def failed_handshake_env_def second_stream_env_def two_cards_env_def
      model_defs)

text \<open>
  C8 (as amended). Calling \<open>disconnect\<close> when no session exists, no stream is held and no
  session-scoped state is set raises nothing and leaves every field of the state as it
  was, except the debug transcript, to which it appends the line \<open>Disconnected.\<close>
\<close>

theorem disconnect_without_session:
  assumes "sessionRef s = None" and "streamRef s = None" and "\<not> isConnected s"
    and "\<not> isStudyMode s" and "activeDeckNameRef s = None" and "currentCard s = JNull"
  shows "disconnect s = appendDebug Disconnected s"
  using assms by (cases s) (simp add: disconnect_def appendDebug_def)

theorem disconnect_without_session_witness:
  "disconnect initial = appendDebug Disconnected initial
   \<and> debugInfo (disconnect initial) = [Disconnected]"
proof -
  have a: "sessionRef initial = None" "streamRef initial = None" "\<not> isConnected initial"
    "\<not> isStudyMode initial" "activeDeckNameRef initial = None" "currentCard initial = JNull"
    by (simp_all add: initial_def)
  from disconnect_without_session [OF a]
  show ?thesis by (simp add: initial_def appendDebug_def)
qed

text \<open>The claim as stated fails in the initial state: no session exists, and the debug
  transcript, which the hook publishes, is not what it was.\<close>

theorem disconnect_without_session_counterexample:
  "sessionRef initial = None \<and> streamRef initial = None
   \<and> debugInfo initial = []
   \<and> debugInfo (disconnect initial) = [Disconnected]
   \<and> disconnect initial \<noteq> initial"
proof -
  have d: "debugInfo (disconnect initial) = [Disconnected]" "debugInfo initial = []"
    by (simp_all add: initial_def disconnect_def appendDebug_def)
  then have "disconnect initial \<noteq> initial" by auto
  with d show ?thesis by (simp add: initial_def)
qed

section \<open>A lookup that returns nothing\<close>

text \<open>
  C10. In remote mode, when the lookup of the head of the due queue returns an empty
  result, \<open>fetchNextCardInternal\<close> returns \<open>null\<close> and changes neither the queue nor
  the current card (it only made the request). A call serviced in that situation has
  asked the service for the head (after the grading request, if it made one), reports
  the END OF SESSION sentinel although the queue is not empty, and leaves the queue and
  the current card as they were. The head is retried: the next tool call that is
  serviced, after any events that do not complete a tool call, and whatever the world
  then answers, asks the service for the same head again.
\<close>

theorem lookup_miss_reports_end_of_session:
  assumes "truthy_str (activeDeckNameRef s)" and "realQueueRef s = i # q"
    and "cardsInfo env [i] = Inr []"
  shows "fetchNextCardInternal env s = (Inr JNull, s\<lparr>requests := requests s @ [CardsInfo [i]]\<rparr>)
    \<and> (serviced env ev s cid out \<longrightarrow>
          js_opt_get out ''next_card'' = END_OF_SESSION
        \<and> realQueueRef (handleTransportEvent env ev s) = i # q
        \<and> currentCardRef (handleTransportEvent env ev s) = currentCardRef s
        \<and> (\<exists>rs. requests (handleTransportEvent env ev s) = requests s @ rs @ [CardsInfo [i]]
                \<and> (rs = [] \<or> (\<exists>c e. rs = [AnswerCard c e])))
        \<and> (\<forall>between env' ev' cid' out'.
              (\<forall>x \<in> set between. \<not> completes_call (snd x))
              \<and> serviced env' ev' (run between (handleTransportEvent env ev s)) cid' out' \<longrightarrow>
              (\<exists>rs. requests (handleTransportEvent env' ev' (run between (handleTransportEvent env ev s)))
                       = requests (handleTransportEvent env ev s) @ rs @ [CardsInfo [i]]
                   \<and> (rs = [] \<or> (\<exists>c e. rs = [AnswerCard c e])))))"
proof (intro conjI impI)
  show "fetchNextCardInternal env s = (Inr JNull, s\<lparr>requests := requests s @ [CardsInfo [i]]\<rparr>)"
    using assms by (rule fetch_remote_miss)
next
  assume srv: "serviced env ev s cid out"
  then obtain verdict feedback s2 s3 nextCard nco where
    ans: "answerCardInternal env verdict
       ((appendDebug (Evaluation verdict feedback) (appendDebug (ToolExecuting (toolCallNames s cid)) s))
          \<lparr>evaluation := verdict\<rparr>) = (Inr (), s2)"
    and fetch: "fetchNextCardInternal env s2 = (Inr nextCard, s3)"
    and cc: "card_content nextCard END_OF_SESSION = Inr nco"
    and out: "out = tool_output (answeredCardBack (currentCardRef s)) nco"
    and s': "handleTransportEvent env ev s =
       sendEvent ResponseCreate
         (sendEvent (FunctionCallOutput cid out) (appendDebug (ToolResult (truthy nextCard)) s3))"
    by (elim serviced_elim)
  from ans assms have s2: "truthy_str (activeDeckNameRef s2)" "realQueueRef s2 = i # q"
    "currentCardRef s2 = currentCardRef s"
    by (auto dest!: answerCardInternal_frame)
  with assms(3) fetch have nc: "nextCard = JNull"
    and s3: "s3 = s2\<lparr>requests := requests s2 @ [CardsInfo [i]]\<rparr>"
    by (simp_all add: fetch_remote_miss)
  from nc cc out show "js_opt_get out ''next_card'' = END_OF_SESSION"
    by (simp add: card_content_def)
  from s' s3 s2 show q: "realQueueRef (handleTransportEvent env ev s) = i # q" by simp
  from s' s3 s2 show "currentCardRef (handleTransportEvent env ev s) = currentCardRef s" by simp
  from s' s3 s2 have d: "truthy_str (activeDeckNameRef (handleTransportEvent env ev s))" by simp
  from serviced_requests[OF srv assms(1,2)]
  show "\<exists>rs. requests (handleTransportEvent env ev s) = requests s @ rs @ [CardsInfo [i]]
                \<and> (rs = [] \<or> (\<exists>c e. rs = [AnswerCard c e]))" .
  show "\<forall>between env' ev' cid' out'.
              (\<forall>x \<in> set between. \<not> completes_call (snd x))
              \<and> serviced env' ev' (run between (handleTransportEvent env ev s)) cid' out' \<longrightarrow>
              (\<exists>rs. requests (handleTransportEvent env' ev' (run between (handleTransportEvent env ev s)))
                       = requests (handleTransportEvent env ev s) @ rs @ [CardsInfo [i]]
                   \<and> (rs = [] \<or> (\<exists>c e. rs = [AnswerCard c e])))"
  proof (intro allI impI)
    fix between env' ev' cid' out'
    let ?t = "run between (handleTransportEvent env ev s)"
    assume a: "(\<forall>x \<in> set between. \<not> completes_call (snd x)) \<and> serviced env' ev' ?t cid' out'"
    then have fr: "realQueueRef ?t = i # q" "truthy_str (activeDeckNameRef ?t)"
      "requests ?t = requests (handleTransportEvent env ev s)"
      using other_events_frame[of between "handleTransportEvent env ev s"] q d by auto
    from a have "serviced env' ev' ?t cid' out'" by blast
    from serviced_requests[OF this fr(2) fr(1)] fr(3)
    show "\<exists>rs. requests (handleTransportEvent env' ev' ?t)
                       = requests (handleTransportEvent env ev s) @ rs @ [CardsInfo [i]]
                   \<and> (rs = [] \<or> (\<exists>c e. rs = [AnswerCard c e]))"
      by simp
  qed
qed

text \<open>The first due card is current, the second is unknown to the service: the call is
  answered with the sentinel, the queue and the current card stay, and the call that
  follows the next announcement grades the same card again and asks for the same head.\<close>

theorem lookup_miss_reports_end_of_session_witness:
  "truthy_str (activeDeckNameRef (studying held_card_env ''call_1''))
   \<and> realQueueRef (studying held_card_env ''call_1'') = [7, 8]
   \<and> currentCardRef (studying held_card_env ''call_1'') = remote_card 1 ''Hola'' ''Hello''
   \<and> cardsInfo held_card_env [7] = Inr []
   \<and> serviced held_card_env (tool_call ''call_1'' (JStr ''correct''))
       (studying held_card_env ''call_1'') ''call_1''
       (JObj [(''status'', JStr ''success''), (''answered_card_back'', JStr ''Hello''),
              (''next_card'', END_OF_SESSION)])
   \<and> realQueueRef (handleTransportEvent held_card_env (tool_call ''call_1'' (JStr ''correct''))
       (studying held_card_env ''call_1'')) = [7, 8]
   \<and> currentCardRef (handleTransportEvent held_card_env (tool_call ''call_1'' (JStr ''correct''))
       (studying held_card_env ''call_1'')) = remote_card 1 ''Hola'' ''Hello''
   \<and> requests (handleTransportEvent held_card_env (tool_call ''call_1'' (JStr ''correct''))
       (studying held_card_env ''call_1''))
     = requests (studying held_card_env ''call_1'') @ [AnswerCard (JNum 1) 3, CardsInfo [7]]
   \<and> requests (handleTransportEvent held_card_env (tool_call ''call_2'' (JStr ''incorrect''))
       (run [(held_card_env, announce ''call_2'')]
          (handleTransportEvent held_card_env (tool_call ''call_1'' (JStr ''correct''))
             (studying held_card_env ''call_1''))))
     = requests (handleTransportEvent held_card_env (tool_call ''call_1'' (JStr ''correct''))
          (studying held_card_env ''call_1'')) @ [AnswerCard (JNum 1) 1, CardsInfo [7]]"
proof -
  let ?s = "studying held_card_env ''call_1''"
  let ?ev = "tool_call ''call_1'' (JStr ''correct'')"
  let ?out = "JObj [(''status'', JStr ''success''), (''answered_card_back'', JStr ''Hello''),
              (''next_card'', END_OF_SESSION)]"
  let ?s' = "handleTransportEvent held_card_env ?ev ?s"
  let ?t = "run [(held_card_env, announce ''call_2'')] ?s'"
  have a: "truthy_str (activeDeckNameRef ?s)"
    by (simp add: held_card_env_def model_defs)
  have b: "realQueueRef ?s = [7, 8]"
    by (simp add: held_card_env_def model_defs)
  have c: "cardsInfo held_card_env [7] = Inr []"
    by (simp add: held_card_env_def model_defs)
  have k: "currentCardRef ?s = remote_card 1 ''Hola'' ''Hello''"
    by (simp add: held_card_env_def model_defs)
  have h: "serviced held_card_env ?ev ?s ''call_1'' ?out"
    by (simp add: held_card_env_def model_defs)
  have r1: "requests ?s' = requests ?s @ [AnswerCard (JNum 1) 3, CardsInfo [7]]"
    by (simp add: held_card_env_def model_defs)
  have r2: "requests (handleTransportEvent held_card_env (tool_call ''call_2'' (JStr ''incorrect'')) ?t)
     = requests ?s' @ [AnswerCard (JNum 1) 1, CardsInfo [7]]"
    by (simp add: held_card_env_def run_def model_defs)
  from lookup_miss_reports_end_of_session [OF a b c, of ?ev "''call_1''" ?out] h
  have "realQueueRef ?s' = [7, 8] \<and> currentCardRef ?s' = currentCardRef ?s"
    by blast
  with a b c k h r1 r2 show ?thesis by simp
qed

section \<open>The verdict badge clears itself\<close>

text \<open>
  C9 (as amended). Whenever the verdict display state is set to a truthy value that is
  not the value on display, a timer of 3 seconds starts and replaces the pending one:
  with no further set, the value stays on display until exactly 3 seconds after that set
  and the display is \<open>null\<close>, with no timer pending, from then on. A set of the value
  that is already on display changes nothing: the timer is not restarted, and the
  display clears 3 seconds after the earlier set. A set to a falsy value that is not the
  value on display puts that value on display and leaves no timer pending.
\<close>

theorem verdict_badge_clears_after_three_seconds:
  "(same_value (shown b) v \<longrightarrow> setEvaluation now v b = b)
   \<and> (truthy v \<and> \<not> same_value (shown b) v \<longrightarrow>
         shown (setEvaluation now v b) = v
       \<and> timer (setEvaluation now v b) = Some (now + 3000)
       \<and> (\<forall>t. t < now + 3000 \<longrightarrow> elapse t (setEvaluation now v b) = setEvaluation now v b)
       \<and> (\<forall>t. now + 3000 \<le> t \<longrightarrow>
             shown (elapse t (setEvaluation now v b)) = JNull
           \<and> timer (elapse t (setEvaluation now v b)) = None))
   \<and> (\<not> truthy v \<and> \<not> same_value (shown b) v \<longrightarrow>
         shown (setEvaluation now v b) = v \<and> timer (setEvaluation now v b) = None)"
proof (intro conjI impI)
  assume "same_value (shown b) v"
  then show "setEvaluation now v b = b" by (simp add: setEvaluation_def)
next
  assume f: "\<not> truthy v \<and> \<not> same_value (shown b) v"
  then show "shown (setEvaluation now v b) = v"
    by (simp add: setEvaluation_def run_effect_def)
  from f show "timer (setEvaluation now v b) = None"
    by (simp add: setEvaluation_def run_effect_def)
next
  assume a: "truthy v \<and> \<not> same_value (shown b) v"
  then have eq: "setEvaluation now v b = b\<lparr>shown := v, timer := Some (now + 3000)\<rparr>"
    by (simp add: setEvaluation_fresh)
  then show "shown (setEvaluation now v b) = v" by simp
  from eq show tm: "timer (setEvaluation now v b) = Some (now + 3000)" by simp
  from tm show "\<forall>t. t < now + 3000 \<longrightarrow> elapse t (setEvaluation now v b) = setEvaluation now v b"
    by (simp add: elapse_before)
  from tm show "\<forall>t. now + 3000 \<le> t \<longrightarrow>
             shown (elapse t (setEvaluation now v b)) = JNull
           \<and> timer (elapse t (setEvaluation now v b)) = None"
    using elapse_after by blast
qed

text \<open>A verdict on display since time 0: the other verdict, set at 2 seconds, is on
  display until 5 seconds; the same verdict, set at 2 seconds, changes nothing.\<close>

theorem verdict_badge_clears_after_three_seconds_witness:
  "setEvaluation 2000 (JStr ''correct'') (setEvaluation 0 (JStr ''correct'') initial_badge)
     = setEvaluation 0 (JStr ''correct'') initial_badge
   \<and> timer (setEvaluation 2000 (JStr ''incorrect'') (setEvaluation 0 (JStr ''correct'') initial_badge))
       = Some 5000
   \<and> shown (elapse 4999 (setEvaluation 2000 (JStr ''incorrect'')
        (setEvaluation 0 (JStr ''correct'') initial_badge))) = JStr ''incorrect''
   \<and> shown (elapse 5000 (setEvaluation 2000 (JStr ''incorrect'')
        (setEvaluation 0 (JStr ''correct'') initial_badge))) = JNull"
proof -
  let ?b = "setEvaluation 0 (JStr ''correct'') initial_badge"
  have s: "shown ?b = JStr ''correct''" by (simp add: setEvaluation_shown)
  have same: "same_value (shown ?b) (JStr ''correct'')"
    by (simp add: s same_value_def)
  have other: "truthy (JStr ''incorrect'') \<and> \<not> same_value (shown ?b) (JStr ''incorrect'')"
    by (simp add: s same_value_def)
  from verdict_badge_clears_after_three_seconds [of ?b "JStr ''correct''" 2000] same
  have one: "setEvaluation 2000 (JStr ''correct'') ?b = ?b" by blast
  from verdict_badge_clears_after_three_seconds [of ?b "JStr ''incorrect''" 2000] other
  have two: "shown (setEvaluation 2000 (JStr ''incorrect'') ?b) = JStr ''incorrect''
       \<and> timer (setEvaluation 2000 (JStr ''incorrect'') ?b) = Some (2000 + 3000)
       \<and> (\<forall>t. t < 2000 + 3000 \<longrightarrow>
             elapse t (setEvaluation 2000 (JStr ''incorrect'') ?b)
               = setEvaluation 2000 (JStr ''incorrect'') ?b)
       \<and> (\<forall>t. 2000 + 3000 \<le> t \<longrightarrow>
             shown (elapse t (setEvaluation 2000 (JStr ''incorrect'') ?b)) = JNull
           \<and> timer (elapse t (setEvaluation 2000 (JStr ''incorrect'') ?b)) = None)"
    by blast
  from two have t1: "timer (setEvaluation 2000 (JStr ''incorrect'') ?b) = Some 5000" by simp
  from two have "elapse 4999 (setEvaluation 2000 (JStr ''incorrect'') ?b)
      = setEvaluation 2000 (JStr ''incorrect'') ?b" by simp
  with two have t2: "shown (elapse 4999 (setEvaluation 2000 (JStr ''incorrect'') ?b)) = JStr ''incorrect''"
    by simp
  from two have t3: "shown (elapse 5000 (setEvaluation 2000 (JStr ''incorrect'') ?b)) = JNull" by simp
  from one t1 t2 t3 show ?thesis by simp
qed

text \<open>The claim as stated fails when the same verdict is set twice within the window:
  \<open>'correct'\<close> is set at time 0 and again at 2 seconds; the second set does not
  restart the timer, whose deadline stays at 3 seconds, so the verdict set at 2 seconds
  is still displayed just before 3 seconds and cleared at 3 seconds, one second after
  it was set.\<close>

theorem repeated_verdict_counterexample:
  "timer (play [(0, JStr ''correct''), (2000, JStr ''correct'')] initial_badge) = Some 3000
   \<and> shown (elapse 2999 (play [(0, JStr ''correct''), (2000, JStr ''correct'')] initial_badge))
       = JStr ''correct''
   \<and> shown (elapse 3000 (play [(0, JStr ''correct''), (2000, JStr ''correct'')] initial_badge))
       = JNull"
  by (simp add: initial_badge_def setEvaluation_def same_value_def run_effect_def elapse_def)


end
